theory Spec2Isabelle
  imports Complex_Main
begin

section \<open>Conventions of the embedding\<close>

text \<open>
  The program is a Python desktop application. Audio samples and probabilities are
  numpy floats, modelled by real numbers. The durations the segmentation loop computes
  are Python floats: the loop takes the rounding of float arithmetic as a parameter and
  is instantiated with the rounding to double precision and with exact arithmetic (see
  the sections on the loop and on rounding). A one-dimensional numpy array is a list; an array of shape \<open>(1, n)\<close> is represented by its single row. Python
  exceptions are values of the type \<open>py_error\<close>; a function that may raise returns a
  sum whose left injection is the exception. Objects mutated in place are passed in and
  returned.
\<close>

datatype py_error = ValueError string | Exception string

text \<open>\<open>str(e)\<close> of an exception is its message.\<close>

fun str_of_error :: "py_error \<Rightarrow> string" where
  "str_of_error (ValueError m) = m"
| "str_of_error (Exception m) = m"

text \<open>Decimal rendering of a natural number, as an f-string renders an \<open>int\<close>.\<close>

fun show_nat :: "nat \<Rightarrow> string" where
  "show_nat n =
     (if n < 10 then [''0123456789'' ! n]
      else show_nat (n div 10) @ [''0123456789'' ! (n mod 10)])"

declare show_nat.simps [simp del]

section \<open>The Silero VAD wrapper (src/vad.py)\<close>

text \<open>
  \<open>SileroVAD.__init__\<close> fixes \<open>sample_rate = 16000\<close>, \<open>_context_size = 64\<close> and
  \<open>_num_samples = 512\<close>. The two mutable attributes are \<open>_state\<close>, a tensor of shape
  \<open>(2, 1, 128)\<close>, and \<open>_context\<close>, of shape \<open>(1, 64)\<close>.
\<close>

definition vad_sample_rate :: nat where "vad_sample_rate = 16000"
definition context_size :: nat where "context_size = 64"
definition num_samples :: nat where "num_samples = 512"

type_synonym tensor3 = "real list list list"

record silero_vad =
  vad_state :: tensor3
  vad_context :: "real list"

text \<open>
  The ONNX inference session is an external collaborator: \<open>session.run\<close> maps the
  input row, the hidden state and the sample rate to the scalar of the \<open>(1, 1)\<close> output
  and the new hidden state. It is a parameter of the model.
\<close>

type_synonym session = "real list \<Rightarrow> tensor3 \<Rightarrow> int \<Rightarrow> real \<times> tensor3"

definition reset_states :: "silero_vad \<Rightarrow> silero_vad" where
  "reset_states v =
     v\<lparr>vad_state := replicate 2 (replicate 1 (replicate 128 0)),
       vad_context := replicate context_size 0\<rparr>"

definition process :: "session \<Rightarrow> real list \<Rightarrow> silero_vad \<Rightarrow> (py_error + real) \<times> silero_vad" where
  "process run audio_chunk v =
     (if length audio_chunk \<noteq> num_samples
      then (Inl (ValueError (''Expected '' @ show_nat num_samples @ '' samples, got ''
                              @ show_nat (length audio_chunk))), v)
      else
        let x = vad_context v @ audio_chunk;
            (out, new_state) = run x (vad_state v) (int vad_sample_rate)
        in (Inr out,
            v\<lparr>vad_state := new_state,
              vad_context := drop (length x - context_size) x\<rparr>))"

section \<open>Recognition and enhancement (src/transcription.py)\<close>

text \<open>
  Python strings are modelled by byte strings holding their UTF-8 encoding; the two
  non-ASCII characters of the status messages are spelled out as bytes.
  \<open>str.strip()\<close> removes the leading and trailing characters for which
  \<open>str.isspace()\<close> holds; \<open>py_whitespace\<close> lists their encodings (U+0009 to U+000D,
  U+001C to U+0020, U+0085, U+00A0, U+1680, U+2000 to U+200A, U+2028, U+2029, U+202F,
  U+205F and U+3000). No encoding is a prefix or a suffix of another character's.
\<close>

definition newline :: string where "newline = [CHR 0x0A]"
definition check_mark :: string where "check_mark = [CHR 0xE2, CHR 0x9C, CHR 0x93]"
definition warning_sign :: string where "warning_sign = [CHR 0xE2, CHR 0x9A, CHR 0xA0]"

definition py_whitespace :: "string list" where
  "py_whitespace =
     [[CHR 0x09], [CHR 0x0A], [CHR 0x0B], [CHR 0x0C], [CHR 0x0D],
      [CHR 0x1C], [CHR 0x1D], [CHR 0x1E], [CHR 0x1F], [CHR 0x20],
      [CHR 0xC2, CHR 0x85], [CHR 0xC2, CHR 0xA0], [CHR 0xE1, CHR 0x9A, CHR 0x80],
      [CHR 0xE2, CHR 0x80, CHR 0x80], [CHR 0xE2, CHR 0x80, CHR 0x81],
      [CHR 0xE2, CHR 0x80, CHR 0x82], [CHR 0xE2, CHR 0x80, CHR 0x83],
      [CHR 0xE2, CHR 0x80, CHR 0x84], [CHR 0xE2, CHR 0x80, CHR 0x85],
      [CHR 0xE2, CHR 0x80, CHR 0x86], [CHR 0xE2, CHR 0x80, CHR 0x87],
      [CHR 0xE2, CHR 0x80, CHR 0x88], [CHR 0xE2, CHR 0x80, CHR 0x89],
      [CHR 0xE2, CHR 0x80, CHR 0x8A], [CHR 0xE2, CHR 0x80, CHR 0xA8],
      [CHR 0xE2, CHR 0x80, CHR 0xA9], [CHR 0xE2, CHR 0x80, CHR 0xAF],
      [CHR 0xE2, CHR 0x81, CHR 0x9F], [CHR 0xE3, CHR 0x80, CHR 0x80]]"

text \<open>Removing from the front of a string every leading occurrence of one of \<open>ws\<close>.\<close>

function strip_prefixes :: "string list \<Rightarrow> string \<Rightarrow> string" where
  "strip_prefixes ws s =
     (case filter (\<lambda>w. w \<noteq> [] \<and> take (length w) s = w) ws of
        [] \<Rightarrow> s
      | w # _ \<Rightarrow> strip_prefixes ws (drop (length w) s))"
  by pat_completeness auto
termination
proof (relation "measure (\<lambda>(ws, s). length s)")
  show "wf (measure (\<lambda>(ws, s). length s))"
    by simp
  show "((ws, drop (length w) s), (ws, s)) \<in> measure (\<lambda>(ws, s). length s)"
    if "filter (\<lambda>w. w \<noteq> [] \<and> take (length w) s = w) ws = w # rest"
    for ws s w rest
  proof -
    have "w \<in> set (filter (\<lambda>w. w \<noteq> [] \<and> take (length w) s = w) ws)"
      using that by simp
    then have w: "w \<noteq> []" "take (length w) s = w"
      by simp_all
    then have "s \<noteq> []"
      by auto
    then show ?thesis
      using w(1) by simp
  qed
qed

declare strip_prefixes.simps [simp del]

definition lstrip :: "string \<Rightarrow> string" where
  "lstrip s = strip_prefixes py_whitespace s"

definition rstrip :: "string \<Rightarrow> string" where
  "rstrip s = rev (strip_prefixes (map rev py_whitespace) (rev s))"

definition strip :: "string \<Rightarrow> string" where
  "strip s = rstrip (lstrip s)"

text \<open>Truthiness of an optional string: \<open>None\<close> and the empty string are false.\<close>

fun truthy :: "string option \<Rightarrow> bool" where
  "truthy None = False"
| "truthy (Some s) = (s \<noteq> [])"

text \<open>The operator \<open>in\<close> on strings: \<open>py_in p s\<close> is \<open>p in s\<close>.\<close>

fun py_in :: "string \<Rightarrow> string \<Rightarrow> bool" where
  "py_in p [] = (p = [])"
| "py_in p (c # s) = (take (length p) (c # s) = p \<or> py_in p s)"

text \<open>The result dictionary; its key \<open>text\<close> is the field \<open>result_text\<close>.\<close>

record transcription =
  result_text :: string
  language :: string

text \<open>
  The recognition collaborator (the \<open>speech_recognition\<close> package) is a parameter:
  \<open>load\<close> stands for opening the audio file and recording it, \<open>recognize_google\<close>
  for the service call, which returns the text or raises \<open>sr.UnknownValueError\<close>,
  \<open>sr.RequestError\<close> or some other exception.
\<close>

datatype sr_error = UnknownValueError | RequestError string | OtherError string

definition lang_map :: "(string \<times> string) list" where
  "lang_map =
     [(''yue'', ''yue-HK''), (''zh'', ''zh-CN''), (''en'', ''en-US''), (''es'', ''es-ES''),
      (''fr'', ''fr-FR''), (''de'', ''de-DE''), (''ja'', ''ja-JP''), (''ko'', ''ko-KR''),
      (''pt'', ''pt-PT''), (''ru'', ''ru-RU''), (''it'', ''it-IT'')]"

text \<open>
  The local variable \<open>google_lang\<close>: \<open>lang_map.get(language, language)\<close> when a
  language is given, \<open>None\<close> otherwise.
\<close>

definition google_lang :: "string option \<Rightarrow> string option" where
  "google_lang lang =
     (if truthy lang
      then (case map_of lang_map (the lang) of Some g \<Rightarrow> Some g | None \<Rightarrow> lang)
      else None)"

definition transcribe_with_google ::
  "(string \<Rightarrow> py_error + 'a) \<Rightarrow> ('a \<Rightarrow> string option \<Rightarrow> sr_error + string)
   \<Rightarrow> string \<Rightarrow> string option \<Rightarrow> py_error + transcription" where
  "transcribe_with_google load recognize_google audio_path lang =
     (case load audio_path of
           Inl e \<Rightarrow> Inl (Exception (''Google transcription failed: '' @ str_of_error e))
         | Inr audio_data \<Rightarrow>
             (case recognize_google audio_data
                     (if truthy (google_lang lang) then google_lang lang else None) of
                Inr txt \<Rightarrow>
                  Inr \<lparr>result_text = strip txt, language = (if truthy lang then the lang else ''auto'')\<rparr>
              | Inl UnknownValueError \<Rightarrow>
                  Inr \<lparr>result_text = [], language = (if truthy lang then the lang else ''unknown'')\<rparr>
              | Inl (RequestError m) \<Rightarrow>
                  Inl (Exception (''Google transcription failed: ''
                         @ ''Google Speech Recognition service error: '' @ m))
              | Inl (OtherError m) \<Rightarrow>
                  Inl (Exception (''Google transcription failed: '' @ m))))"

text \<open>
  The enhancement collaborator (the \<open>ollama\<close> package): \<open>ollama_import\<close> is the
  exception raised by the imports, if any; \<open>ollama_list\<close> the one raised by
  \<open>ollama.list()\<close>, if any; \<open>ollama_generate model timeout prompt\<close> the response text
  of \<open>client.generate\<close> or the exception it raises.
\<close>

record ollama =
  ollama_import :: "py_error option"
  ollama_list :: "py_error option"
  ollama_generate :: "string \<Rightarrow> nat \<Rightarrow> string \<Rightarrow> py_error + string"

definition OLLAMA_MODEL :: string where "OLLAMA_MODEL = ''gemma3n:e4b''"
definition OLLAMA_TIMEOUT :: nat where "OLLAMA_TIMEOUT = 30"

definition prompts :: "string \<Rightarrow> (string \<times> string) list" where
  "prompts txt =
     [(''improve'', ''Fix grammar and punctuation in this text, keeping the original meaning. Only return the corrected text:''
         @ newline @ newline @ txt),
      (''summarize'', ''Summarize this text in bullet points:'' @ newline @ newline @ txt),
      (''translate'', ''Translate this text to Spanish:'' @ newline @ newline @ txt)]"

text \<open>
  The handler of the outer \<open>try\<close>: an exception whose message contains
  \<open>Ollama is not running\<close> is raised again as it is, any other is wrapped.
\<close>

definition ollama_handler :: "py_error \<Rightarrow> py_error" where
  "ollama_handler e =
     (if py_in ''Ollama is not running'' (str_of_error e) then e
      else Exception (''Ollama processing failed: '' @ str_of_error e))"

definition process_with_ollama :: "ollama \<Rightarrow> string \<Rightarrow> string \<Rightarrow> py_error + string" where
  "process_with_ollama oll txt task =
     (let prompt = (case map_of (prompts txt) task of
                      Some p \<Rightarrow> p
                    | None \<Rightarrow> the (map_of (prompts txt) ''improve''))
      in case ollama_import oll of
           Some e \<Rightarrow> Inl (ollama_handler e)
         | None \<Rightarrow>
             (case ollama_list oll of
                Some _ \<Rightarrow>
                  Inl (ollama_handler
                         (Exception ''Ollama is not running. Please start Ollama first.''))
              | None \<Rightarrow>
                  (case ollama_generate oll OLLAMA_MODEL OLLAMA_TIMEOUT prompt of
                     Inl e \<Rightarrow> Inl (ollama_handler e)
                   | Inr response \<Rightarrow> Inr (strip response))))"

text \<open>
  \<open>transcribe_audio\<close>. The calls to \<open>process_audio\<close> (which returns the temporary
  path, the duration and an optional warning) and to \<open>transcribe_with_whisper\<close> are
  parameters; deleting the temporary file has no effect on the result. The result is
  the pair of the transcription text and the status message.
\<close>

definition transcribe_audio ::
  "(real list \<Rightarrow> nat \<Rightarrow> py_error + string \<times> real \<times> string option)
   \<Rightarrow> (string \<Rightarrow> string option \<Rightarrow> py_error + transcription)
   \<Rightarrow> ollama \<Rightarrow> (nat \<times> real list) option \<Rightarrow> string \<Rightarrow> bool \<Rightarrow> string
   \<Rightarrow> string \<times> string" where
  "transcribe_audio process_audio transcribe_with_whisper oll audio_tuple lang use_ollama
       ollama_task =
     (case audio_tuple of
        None \<Rightarrow> ([], ''Error: No audio recorded. Please record audio first.'')
      | Some (sample_rate, audio_data) \<Rightarrow>
          if length audio_data = 0
          then ([], ''Error: Empty audio. Please record some audio.'')
          else
            (case process_audio audio_data sample_rate of
               Inl e \<Rightarrow> ([], ''Error: '' @ str_of_error e)
             | Inr (temp_path, duration, warning) \<Rightarrow>
                 let status0 = ''Processing audio...'';
                     status1 = (if truthy warning then status0 @ newline @ the warning
                                else status0);
                     status2 = status1 @ newline @ ''Transcribing with Whisper...''
                 in case transcribe_with_whisper temp_path
                           (if lang \<noteq> ''auto'' then Some lang else None) of
                      Inl e \<Rightarrow> ([], ''Error: '' @ str_of_error e)
                    | Inr result \<Rightarrow>
                        let transcription = result_text result;
                            detected_lang = language result
                        in if use_ollama \<and> transcription \<noteq> []
                           then
                             let status3 = status2 @ newline @ ''Enhancing with Ollama...''
                             in case process_with_ollama oll transcription ollama_task of
                                  Inr enhanced \<Rightarrow>
                                    (enhanced,
                                     status3 @ newline @ check_mark @ '' Complete! (Language: ''
                                       @ detected_lang @ '', Enhanced with Ollama)'')
                                | Inl e \<Rightarrow>
                                    (transcription,
                                     status3 @ newline @ check_mark
                                       @ '' Transcription complete (Language: ''
                                       @ detected_lang @ '')''
                                       @ newline @ warning_sign
                                       @ '' Ollama enhancement failed: '' @ str_of_error e)
                           else
                             (transcription,
                              status2 @ newline @ check_mark @ '' Complete! (Language: ''
                                @ detected_lang @ '')'')))"

section \<open>The floating overlay (overlay.py)\<close>

text \<open>
  Of the \<open>FloatingOverlay\<close> object the model keeps the attributes that the visibility
  logic reads and writes: \<open>overlay\<close>, the Tk toplevel window or \<open>None\<close>, of which
  only whether it is mapped (shown by \<open>deiconify\<close>, hidden by \<open>withdraw\<close>) matters;
  \<open>is_visible\<close>; and \<open>_hide_timer\<close>, the identifier of the pending timer or \<open>None\<close>.
  The timers the Tk event loop holds are \<open>pending\<close>; \<open>after_cancel\<close> removes one.
\<close>

record toplevel =
  mapped :: bool

record floating_overlay =
  overlay :: "toplevel option"
  is_visible :: bool
  hide_timer :: "nat option"
  pending :: "nat list"

definition auto_hide :: "floating_overlay \<Rightarrow> floating_overlay" where
  "auto_hide s =
     (let s1 = (if overlay s \<noteq> None \<and> is_visible s
                then s\<lparr>overlay := Some ((the (overlay s))\<lparr>mapped := False\<rparr>),
                       is_visible := False\<rparr>
                else s)
      in s1\<lparr>hide_timer := None\<rparr>)"

definition toggle_visibility :: "floating_overlay \<Rightarrow> floating_overlay" where
  "toggle_visibility s =
     (if overlay s = None then s
      else if is_visible s
      then let s1 = s\<lparr>overlay := Some ((the (overlay s))\<lparr>mapped := False\<rparr>),
                      is_visible := False\<rparr>
           in (case hide_timer s1 of
                 Some t \<Rightarrow> s1\<lparr>pending := removeAll t (pending s1), hide_timer := None\<rparr>
               | None \<Rightarrow> s1)
      else s\<lparr>overlay := Some ((the (overlay s))\<lparr>mapped := True\<rparr>), is_visible := True\<rparr>)"

section \<open>Rounding to double precision\<close>

text \<open>
  Rounding a real number to the nearest double, ties to the even significand, for the
  normal range (overflow and subnormal numbers do not occur for the durations of the
  loop and are not modelled). \<open>normalise y u\<close> scales a positive \<open>y\<close> by powers of
  two into the interval from \<open>2^52\<close> to \<open>2^53\<close>, keeping \<open>y * u\<close> unchanged; the
  scaled value is rounded to an integer, the 53-bit significand.
\<close>

definition round_half_even :: "real \<Rightarrow> int" where
  "round_half_even q =
     (let f = \<lfloor>q\<rfloor>; r = q - of_int f
      in if r < 1/2 then f else if 1/2 < r then f + 1 else if even f then f else f + 1)"

function normalise :: "real \<Rightarrow> real \<Rightarrow> real \<times> real" where
  "normalise y u =
     (if y \<le> 0 then (y, u)
      else if 9007199254740992 \<le> y then normalise (y / 2) (2 * u)
      else if y < 4503599627370496 then normalise (2 * y) (u / 2)
      else (y, u))"
  by pat_completeness auto
termination
proof (relation "measure (\<lambda>(y, u). if 9007199254740992 \<le> y then nat \<lceil>y\<rceil>
                                     else nat \<lceil>9007199254740992 / y\<rceil>)")
  have half: "nat \<lceil>z / 2\<rceil> < nat \<lceil>z\<rceil>" if "2 \<le> z" for z :: real
  proof -
    have "\<lceil>z / 2\<rceil> + 1 = \<lceil>z / 2 + 1\<rceil>"
      by simp
    also have "\<dots> \<le> \<lceil>z\<rceil>"
      by (rule ceiling_mono) (use that in simp)
    finally have "\<lceil>z / 2\<rceil> < \<lceil>z\<rceil>"
      by simp
    moreover have "0 < \<lceil>z\<rceil>"
      using that by simp
    ultimately show ?thesis
      by simp
  qed
  show "wf (measure (\<lambda>(y, u). if 9007199254740992 \<le> y then nat \<lceil>y\<rceil>
                                     else nat \<lceil>9007199254740992 / y\<rceil>))"
    by simp
  show "((y / 2, 2 * u), (y, u)) \<in> measure (\<lambda>(y, u). if 9007199254740992 \<le> y then nat \<lceil>y\<rceil>
                                     else nat \<lceil>9007199254740992 / y\<rceil>)"
    if y: "\<not> y \<le> 0" "9007199254740992 \<le> y" for y u :: real
  proof -
    have big: "nat \<lceil>y / 2\<rceil> < nat \<lceil>y\<rceil>"
      by (rule half) (use y in simp)
    have small: "nat \<lceil>9007199254740992 / (y / 2)\<rceil> < nat \<lceil>y\<rceil>"
    proof -
      define a where "a = \<lceil>9007199254740992 / (y / 2)\<rceil>"
      define b where "b = \<lceil>y\<rceil>"
      have "9007199254740992 / (y / 2) \<le> 2"
        using y by (simp add: field_simps)
      then have "a \<le> 2"
        unfolding a_def by (simp add: ceiling_le_iff)
      moreover have "9007199254740992 \<le> b"
        unfolding b_def using y(2) by (simp add: le_ceiling_iff)
      ultimately have "nat a < nat b"
        by linarith
      then show ?thesis
        by (simp only: a_def b_def)
    qed
    show ?thesis
      using y big small by simp
  qed
  show "((2 * y, u / 2), (y, u)) \<in> measure (\<lambda>(y, u). if 9007199254740992 \<le> y then nat \<lceil>y\<rceil>
                                     else nat \<lceil>9007199254740992 / y\<rceil>)"
    if y: "\<not> y \<le> 0" "\<not> 9007199254740992 \<le> y" "y < 4503599627370496" for y u :: real
  proof -
    have "2 \<le> 9007199254740992 / y"
      using y by (simp add: field_simps)
    then have "nat \<lceil>9007199254740992 / y / 2\<rceil> < nat \<lceil>9007199254740992 / y\<rceil>"
      by (rule half)
    moreover have "9007199254740992 / y / 2 = 9007199254740992 / (2 * y)"
      by simp
    ultimately show ?thesis
      using y by simp
  qed
qed

declare normalise.simps [simp del]

definition round_double :: "real \<Rightarrow> real" where
  "round_double x =
     (if x = 0 then 0
      else case normalise \<bar>x\<bar> 1 of (q, u) \<Rightarrow> sgn x * of_int (round_half_even q) * u)"

section \<open>Voice activity check and the continuous loop (src/desktop_app.py)\<close>

text \<open>
  The settings dictionary, restricted to the keys the loop reads. \<open>_load_settings\<close>
  merges the saved file into the defaults without checking ranges; the settings dialog
  accepts a pause threshold between 0.5 and 5.0 and offers a VAD threshold slider from
  0.0 to 1.0.
\<close>

record settings =
  pause_threshold :: real
  silence_threshold :: real
  idle_timeout :: real
  vad_threshold :: real

definition default_settings :: settings where
  "default_settings =
     \<lparr>pause_threshold = 3/2, silence_threshold = 1/100, idle_timeout = 10,
      vad_threshold = 1/2\<rparr>"

definition app_sample_rate :: nat where "app_sample_rate = 16000"
definition chunk_duration :: real where "chunk_duration = 1/10"
definition max_buffer_duration :: real where "max_buffer_duration = 30"

text \<open>
  The loop of \<open>_check_voice_activity\<close>,
  \<open>for i in range(0, len(audio_chunk) - 511, 512)\<close>, with the loop variable and the
  running maximum as arguments.
\<close>

function vad_frames ::
  "session \<Rightarrow> real list \<Rightarrow> nat \<Rightarrow> real \<Rightarrow> silero_vad \<Rightarrow> (py_error + real) \<times> silero_vad" where
  "vad_frames run audio_chunk i max_prob v =
     (if int i < int (length audio_chunk) - 511
      then (case process run (take 512 (drop i audio_chunk)) v of
              (Inl e, v') \<Rightarrow> (Inl e, v')
            | (Inr prob, v') \<Rightarrow> vad_frames run audio_chunk (i + 512) (max max_prob prob) v')
      else (Inr max_prob, v))"
  by pat_completeness auto
termination
  by (relation "measure (\<lambda>(run, audio_chunk, i, max_prob, v). length audio_chunk - i)") auto

declare vad_frames.simps [simp del]

text \<open>\<open>np.max(np.abs(a))\<close>; numpy raises \<open>ValueError\<close> on an empty array.\<close>

definition np_max_abs :: "real list \<Rightarrow> py_error + real" where
  "np_max_abs a =
     (case a of
        [] \<Rightarrow> Inl (ValueError
                 ''zero-size array to reduction operation maximum which has no identity'')
      | x # xs \<Rightarrow> Inr (fold max (map abs xs) (abs x)))"

definition check_voice_activity ::
  "session \<Rightarrow> bool \<Rightarrow> settings \<Rightarrow> real list \<Rightarrow> silero_vad \<Rightarrow> (py_error + bool) \<times> silero_vad" where
  "check_voice_activity run vad_available st audio_chunk v =
     (if vad_available
      then (case vad_frames run audio_chunk 0 0 v of
              (Inl e, v') \<Rightarrow> (Inl e, v')
            | (Inr max_prob, v') \<Rightarrow> (Inr (max_prob \<ge> vad_threshold st), v'))
      else (case np_max_abs audio_chunk of
              Inl e \<Rightarrow> (Inl e, v)
            | Inr m \<Rightarrow> (Inr (m \<ge> silence_threshold st), v)))"

text \<open>
  The local variables of \<open>_continuous_loop\<close>. The list \<open>audio_buffer\<close>, which the
  capture callback fills between two iterations, is the input of an iteration.
\<close>

record loop_state =
  silence_buffer :: "real list"
  silence_duration :: real
  is_speaking :: bool
  loop_count :: nat
  idle_duration :: real

definition initial_loop_state :: loop_state where
  "initial_loop_state =
     \<lparr>silence_buffer = [], silence_duration = 0, is_speaking = False, loop_count = 0,
      idle_duration = 0\<rparr>"

text \<open>
  What the loop does to the rest of the application. \<open>Dispatch t speech_audio sd\<close> is
  the start of a thread running \<open>_process_continuous_chunk(speech_audio)\<close>; the thread
  receives the audio only, and the model records with it which of the three places of the
  loop started it and the value of \<open>silence_duration\<close> at that moment, from which the
  loop computes the voiced duration. \<open>StopSignal\<close> is \<open>self._ui_update(self.stop)\<close>.
\<close>

datatype trigger = PauseTimeout | ForceFlush | StopFlush

datatype effect = Dispatch trigger "real list" real | StopSignal

definition total_duration :: "real list \<Rightarrow> real" where
  "total_duration audio = real (length audio) / real app_sample_rate"

text \<open>
  Python's \<open>float\<close> is the IEEE 754 double. Each arithmetic operation returns the
  rounding of its exact result, and a decimal literal denotes the rounding of its value.
  In the loop below the rounding is the parameter \<open>rnd\<close>: \<open>a + b\<close> on floats is
  \<open>rnd (a + b)\<close>, and likewise for \<open>-\<close> and \<open>/\<close>; the literal \<open>0.1\<close> is
  \<open>rnd chunk_duration\<close> and \<open>0.3\<close> is \<open>rnd (3/10)\<close>, while \<open>0.0\<close>, \<open>0.5\<close> and
  \<open>30.0\<close> are doubles themselves. Comparisons are exact. \<open>round_double\<close> below is the
  rounding Python performs; with the identity for \<open>rnd\<close> the loop computes with exact
  reals.
\<close>

text \<open>The branch \<open>if is_voice:\<close> of the loop body.\<close>

definition on_voice_fp ::
  "(real \<Rightarrow> real) \<Rightarrow> real list \<Rightarrow> loop_state \<Rightarrow> effect list \<times> loop_state" where
  "on_voice_fp rnd chunk s =
     (let s1 = s\<lparr>idle_duration := 0\<rparr>;
          s2 = (if \<not> is_speaking s1
                then s1\<lparr>is_speaking := True, silence_buffer := [], silence_duration := 0\<rparr>
                else s1);
          s3 = s2\<lparr>silence_buffer := silence_buffer s2 @ chunk\<rparr>;
          buffer_duration = rnd (real (length (silence_buffer s3)) / real app_sample_rate)
      in if buffer_duration \<ge> max_buffer_duration
         then ([Dispatch ForceFlush (silence_buffer s3) (silence_duration s3)],
               s3\<lparr>silence_buffer := [], silence_duration := 0\<rparr>)
         else ([], s3))"

text \<open>
  The branch \<open>else:\<close> (silence). The third component of the result tells whether the
  loop was left by \<open>break\<close>.
\<close>

definition on_silence_fp ::
  "(real \<Rightarrow> real) \<Rightarrow> settings \<Rightarrow> real list \<Rightarrow> loop_state
   \<Rightarrow> effect list \<times> loop_state \<times> bool" where
  "on_silence_fp rnd st chunk s =
     (if \<not> is_speaking s
      then
        let s1 = s\<lparr>idle_duration := rnd (idle_duration s + rnd chunk_duration)\<rparr>
        in if idle_timeout st > 0 \<and> idle_duration s1 \<ge> idle_timeout st
           then ([StopSignal], s1, True)
           else ([], s1, False)
      else
        let s1 = s\<lparr>silence_buffer := silence_buffer s @ chunk,
                   silence_duration := rnd (silence_duration s + rnd chunk_duration)\<rparr>
        in if silence_duration s1 \<ge> pause_threshold st
           then
             let total = rnd (real (length (silence_buffer s1)) / real app_sample_rate);
                 voice_duration = rnd (total - silence_duration s1);
                 started =
                   (if voice_duration < 1/2 then []
                    else if length (silence_buffer s1) > 0
                    then [Dispatch PauseTimeout (silence_buffer s1) (silence_duration s1)]
                    else [])
             in (started,
                 s1\<lparr>silence_buffer := [], silence_duration := 0, is_speaking := False,
                    idle_duration := 0\<rparr>,
                 False)
           else ([], s1, False))"

text \<open>The flush after the loop, \<open>if is_speaking and len(silence_buffer) > 0\<close>.\<close>

definition flush_remaining_fp :: "(real \<Rightarrow> real) \<Rightarrow> loop_state \<Rightarrow> effect list" where
  "flush_remaining_fp rnd s =
     (if is_speaking s \<and> length (silence_buffer s) > 0
      then
        let total = rnd (real (length (silence_buffer s)) / real app_sample_rate);
            voice_duration = rnd (total - silence_duration s)
        in if voice_duration < 1/2 then []
           else if total \<ge> rnd (3/10)
           then [Dispatch StopFlush (silence_buffer s) (silence_duration s)]
           else []
      else [])"

text \<open>
  The result of a run: the effects in the order they happened, the local variables and
  the VAD object at the end, and the exception that ended the run, if any.
\<close>

record loop_result =
  effects :: "effect list"
  final_state :: loop_state
  final_vad :: silero_vad
  raised :: "py_error option"

definition emit :: "effect list \<Rightarrow> loop_result \<Rightarrow> loop_result" where
  "emit es r = r\<lparr>effects := es @ effects r\<rparr>"

text \<open>
  The \<open>while self.continuous_mode\<close> loop. Its input is the list of the contents of
  \<open>audio_buffer\<close> (a list of captured blocks) found by the successive iterations; the
  list ends where \<open>continuous_mode\<close> has become false. An iteration that finds no block
  does nothing (\<open>continue\<close>). An exception leaves the loop and the \<open>try\<close> block.
\<close>

fun while_loop_fp ::
  "(real \<Rightarrow> real) \<Rightarrow> session \<Rightarrow> bool \<Rightarrow> settings \<Rightarrow> real list list list \<Rightarrow> silero_vad
   \<Rightarrow> loop_state \<Rightarrow> loop_result" where
  "while_loop_fp rnd run vad_available st [] v s =
     \<lparr>effects = [], final_state = s, final_vad = v, raised = None\<rparr>"
| "while_loop_fp rnd run vad_available st (audio_buffer # rest) v s =
     (let s0 = s\<lparr>loop_count := loop_count s + 1\<rparr>
      in if audio_buffer = [] then while_loop_fp rnd run vad_available st rest v s0
         else
           (case check_voice_activity run vad_available st (concat audio_buffer) v of
              (Inl e, v') \<Rightarrow>
                \<lparr>effects = [], final_state = s0, final_vad = v', raised = Some e\<rparr>
            | (Inr is_voice, v') \<Rightarrow>
                if is_voice
                then emit (fst (on_voice_fp rnd (concat audio_buffer) s0))
                       (while_loop_fp rnd run vad_available st rest v'
                          (snd (on_voice_fp rnd (concat audio_buffer) s0)))
                else
                  (case on_silence_fp rnd st (concat audio_buffer) s0 of
                     (started, s1, True) \<Rightarrow>
                       \<lparr>effects = started, final_state = s1, final_vad = v', raised = None\<rparr>
                   | (started, s1, False) \<Rightarrow>
                       emit started (while_loop_fp rnd run vad_available st rest v' s1))))"

declare while_loop_fp.simps [simp del]

text \<open>
  \<open>_continuous_loop\<close>: the VAD is reset when it is available, the loop runs, and unless
  an exception ended it the remaining buffer is flushed. Opening the audio stream is not
  modelled.
\<close>

definition continuous_loop_fp ::
  "(real \<Rightarrow> real) \<Rightarrow> session \<Rightarrow> bool \<Rightarrow> settings \<Rightarrow> real list list list \<Rightarrow> silero_vad
   \<Rightarrow> loop_result" where
  "continuous_loop_fp rnd run vad_available st ticks v =
     (let r = while_loop_fp rnd run vad_available st ticks
                (if vad_available then reset_states v else v) initial_loop_state
      in if raised r = None
         then r\<lparr>effects := effects r @ flush_remaining_fp rnd (final_state r)\<rparr>
         else r)"

text \<open>
  The loop over exact reals: the functions above with the identity for the rounding.
  Their unfolded equations are the lemmas \<open>on_voice_exact\<close>, \<open>on_silence_exact\<close>,
  \<open>flush_remaining_exact\<close>, \<open>while_loop_exact\<close> and \<open>continuous_loop_exact\<close>.
\<close>

definition on_voice :: "real list \<Rightarrow> loop_state \<Rightarrow> effect list \<times> loop_state" where
  "on_voice = on_voice_fp (\<lambda>x. x)"

definition on_silence :: "settings \<Rightarrow> real list \<Rightarrow> loop_state \<Rightarrow> effect list \<times> loop_state \<times> bool" where
  "on_silence = on_silence_fp (\<lambda>x. x)"

definition flush_remaining :: "loop_state \<Rightarrow> effect list" where
  "flush_remaining = flush_remaining_fp (\<lambda>x. x)"

definition while_loop ::
  "session \<Rightarrow> bool \<Rightarrow> settings \<Rightarrow> real list list list \<Rightarrow> silero_vad \<Rightarrow> loop_state \<Rightarrow> loop_result" where
  "while_loop = while_loop_fp (\<lambda>x. x)"

definition continuous_loop ::
  "session \<Rightarrow> bool \<Rightarrow> settings \<Rightarrow> real list list list \<Rightarrow> silero_vad \<Rightarrow> loop_result" where
  "continuous_loop = continuous_loop_fp (\<lambda>x. x)"

section \<open>Synthetic streams and predicates used to state the properties\<close>

text \<open>
  Test inputs: a chunk of 100 ms (1600 samples at 16 kHz) of amplitude 0.5, which the
  amplitude detector classifies as voice for the default silence threshold, and a chunk
  of 100 ms of zeros. \<open>null_session\<close> is a session that always answers probability 0;
  \<open>fresh_vad\<close> is a VAD object after \<open>reset_states\<close>.
\<close>

definition voiced_chunk :: "real list" where "voiced_chunk = replicate 1600 (1/2)"
definition silent_chunk :: "real list" where "silent_chunk = replicate 1600 0"

definition null_session :: session where "null_session = (\<lambda>x h sr. (0, h))"

definition fresh_vad :: silero_vad where
  "fresh_vad =
     \<lparr>vad_state = replicate 2 (replicate 1 (replicate 128 0)), vad_context = replicate 64 0\<rparr>"



text \<open>
  \<open>idle_counter rnd d k\<close> is the value of \<open>idle_duration\<close> after \<open>k\<close> further
  executions of \<open>idle_duration += chunk_duration\<close>, starting from \<open>d\<close>.
  \<open>first_reach rnd T d n\<close> searches the first of the next \<open>n\<close> executions after which
  the counter has reached \<open>T\<close>, and returns its number and the counter.
\<close>

primrec idle_counter :: "(real \<Rightarrow> real) \<Rightarrow> real \<Rightarrow> nat \<Rightarrow> real" where
  "idle_counter rnd d 0 = d"
| "idle_counter rnd d (Suc k) = idle_counter rnd (rnd (d + rnd chunk_duration)) k"

fun first_reach :: "(real \<Rightarrow> real) \<Rightarrow> real \<Rightarrow> real \<Rightarrow> nat \<Rightarrow> (nat \<times> real) option" where
  "first_reach rnd T d 0 = None"
| "first_reach rnd T d (Suc n) =
     (let d' = rnd (d + rnd chunk_duration)
      in if T \<le> d' then Some (1, d')
         else map_option (\<lambda>(k, c). (Suc k, c)) (first_reach rnd T d' n))"

section \<open>Properties of the VAD wrapper\<close>

text \<open>
  C5 (VAD recurrence). For a frame of 512 samples, \<open>process\<close> runs inference on the
  stored context followed by the frame; afterwards the stored context is the last 64
  samples of the frame and the stored hidden state is the state the session returned.
  With a 64-sample context the inference input has 576 samples, and the context keeps
  that length. \<open>reset_states\<close> stores an all-zero hidden state of shape (2, 1, 128) and
  an all-zero context of 64 samples.
\<close>

theorem vad_recurrence:
  "(length frame = 512 \<longrightarrow>
      process run frame v =
        (Inr (fst (run (vad_context v @ frame) (vad_state v) 16000)),
         \<lparr>vad_state = snd (run (vad_context v @ frame) (vad_state v) 16000),
          vad_context = drop 448 frame\<rparr>)
      \<and> length (vad_context (snd (process run frame v))) = 64
      \<and> (length (vad_context v) = 64 \<longrightarrow> length (vad_context v @ frame) = 576))
   \<and> reset_states v =
        \<lparr>vad_state = replicate 2 (replicate 1 (replicate 128 0)),
         vad_context = replicate 64 0\<rparr>"
  by (simp add: process_def reset_states_def num_samples_def context_size_def
      vad_sample_rate_def split_beta Let_def)

theorem vad_recurrence_witness:
  "length (replicate 512 (1::real)) = 512
   \<and> process (\<lambda>x h sr. (1/2, [[x]])) (replicate 512 1)
       (reset_states \<lparr>vad_state = [], vad_context = []\<rparr>) =
       (Inr (1/2),
        \<lparr>vad_state = [[replicate 64 0 @ replicate 512 1]], vad_context = replicate 64 1\<rparr>)"
  using vad_recurrence [of "replicate 512 (1::real)" "\<lambda>x h sr. (1/2, [[x]])"
      "reset_states \<lparr>vad_state = [], vad_context = []\<rparr>"]
  by (simp add: reset_states_def context_size_def)

text \<open>
  C6 (frame-size precondition). A frame whose length is not 512 makes \<open>process\<close> raise
  a \<open>ValueError\<close> before anything else happens: the session is not run and the VAD
  object is returned as it was. A frame of exactly 512 samples raises no error.
\<close>

theorem process_frame_size:
  "(length frame \<noteq> 512 \<longrightarrow>
      process run frame v =
        (Inl (ValueError (''Expected 512 samples, got '' @ show_nat (length frame))), v))
   \<and> (length frame = 512 \<longrightarrow> (\<exists>p v'. process run frame v = (Inr p, v')))"
proof -
  have "show_nat 512 = ''512''"
    by (simp add: show_nat.simps)
  then show ?thesis
    by (simp add: process_def num_samples_def split_beta Let_def)
qed

theorem process_frame_size_witness:
  "length (replicate 511 (0::real)) \<noteq> 512
   \<and> process (\<lambda>x h sr. (1, [])) (replicate 511 0) \<lparr>vad_state = [], vad_context = [7]\<rparr> =
       (Inl (ValueError ''Expected 512 samples, got 511''),
        \<lparr>vad_state = [], vad_context = [7]\<rparr>)
   \<and> length (replicate 512 (0::real)) = 512
   \<and> (\<exists>p v'. process (\<lambda>x h sr. (1, [])) (replicate 512 0)
                \<lparr>vad_state = [], vad_context = [7]\<rparr> = (Inr p, v'))"
proof -
  have "show_nat 511 = ''511''"
    by (simp add: show_nat.simps)
  then show ?thesis
    using process_frame_size [of "replicate 511 (0::real)" "\<lambda>x h sr. (1, [])"
        "\<lparr>vad_state = [], vad_context = [7]\<rparr>"]
      process_frame_size [of "replicate 512 (0::real)" "\<lambda>x h sr. (1, [])"
        "\<lparr>vad_state = [], vad_context = [7]\<rparr>"]
    by simp
qed

section \<open>Properties of recognition and enhancement\<close>

text \<open>
  C7 (recognition outcome classification). Once the audio file is loaded, a service that
  cannot understand the speech (\<open>sr.UnknownValueError\<close>) makes \<open>transcribe_with_google\<close>
  return a result whose text is empty, not an error; a service failure
  (\<open>sr.RequestError\<close>) makes it raise an exception.
\<close>

theorem google_outcome_classification:
  "load audio_path = Inr audio_data \<Longrightarrow>
     (recognize_google audio_data (if truthy (google_lang lang) then google_lang lang else None)
        = Inl UnknownValueError \<longrightarrow>
        transcribe_with_google load recognize_google audio_path lang =
          Inr \<lparr>result_text = [],
               language = (if truthy lang then the lang else ''unknown'')\<rparr>)
   \<and> (recognize_google audio_data (if truthy (google_lang lang) then google_lang lang else None)
        = Inl (RequestError m) \<longrightarrow>
        transcribe_with_google load recognize_google audio_path lang =
          Inl (Exception (''Google transcription failed: ''
                 @ ''Google Speech Recognition service error: '' @ m)))"
  by (simp add: transcribe_with_google_def)

theorem google_outcome_classification_witness:
  "transcribe_with_google (\<lambda>p. Inr (0::nat)) (\<lambda>a l. Inl UnknownValueError) ''a.wav'' (Some ''yue'')
     = Inr \<lparr>result_text = [], language = ''yue''\<rparr>
   \<and> transcribe_with_google (\<lambda>p. Inr (0::nat)) (\<lambda>a l. Inl (RequestError ''timeout'')) ''a.wav'' None
     = Inl (Exception ''Google transcription failed: Google Speech Recognition service error: timeout'')"
  using google_outcome_classification
          [where load = "\<lambda>p. Inr (0::nat)" and audio_path = "''a.wav''" and audio_data = 0
             and recognize_google = "\<lambda>a l. Inl UnknownValueError" and lang = "Some ''yue''"]
        google_outcome_classification
          [where load = "\<lambda>p. Inr (0::nat)" and audio_path = "''a.wav''" and audio_data = 0
             and recognize_google = "\<lambda>a l. Inl (RequestError ''timeout'')"
             and m = "''timeout''" and lang = None]
  by (simp add: google_lang_def lang_map_def)

text \<open>
  C8 (enhancement failure recovery). In a run of \<open>transcribe_audio\<close> with enhancement
  requested in which the audio was processed and recognized, a failure of
  \<open>process_with_ollama\<close> leaves the recognized text as the returned transcription; the
  status message is the normal progress text followed by a completion line and a warning
  line carrying the failure, and it is not an error status.
\<close>

theorem enhancement_failure_recovery:
  assumes "audio_data \<noteq> []"
    and "process_audio audio_data sample_rate = Inr (temp_path, duration, warning)"
    and "transcribe_with_whisper temp_path (if lang \<noteq> ''auto'' then Some lang else None)
           = Inr result"
    and "result_text result \<noteq> []"
    and "process_with_ollama oll (result_text result) ollama_task = Inl e"
  shows "transcribe_audio process_audio transcribe_with_whisper oll
           (Some (sample_rate, audio_data)) lang True ollama_task =
         (result_text result,
          ''Processing audio...''
            @ (if truthy warning then newline @ the warning else [])
            @ newline @ ''Transcribing with Whisper...''
            @ newline @ ''Enhancing with Ollama...''
            @ newline @ check_mark @ '' Transcription complete (Language: ''
            @ language result @ '')''
            @ newline @ warning_sign @ '' Ollama enhancement failed: '' @ str_of_error e)"
  using assms by (simp add: transcribe_audio_def Let_def)

theorem enhancement_failure_recovery_witness:
  "transcribe_audio (\<lambda>a r. Inr (''t.wav'', 1, None))
       (\<lambda>p l. Inr \<lparr>result_text = ''hello'', language = ''en''\<rparr>)
       \<lparr>ollama_import = None, ollama_list = Some (Exception ''refused''),
        ollama_generate = (\<lambda>m t p. Inr p)\<rparr>
       (Some (16000, [1/2])) ''auto'' True ''improve''
     = (''hello'',
        ''Processing audio...'' @ newline @ ''Transcribing with Whisper...''
          @ newline @ ''Enhancing with Ollama...''
          @ newline @ check_mark @ '' Transcription complete (Language: en)''
          @ newline @ warning_sign
          @ '' Ollama enhancement failed: Ollama is not running. Please start Ollama first.'')"
proof -
  let ?oll = "\<lparr>ollama_import = None, ollama_list = Some (Exception ''refused''),
               ollama_generate = (\<lambda>m t p. Inr p)\<rparr>"
  have fail: "process_with_ollama ?oll ''hello'' ''improve''
                = Inl (Exception ''Ollama is not running. Please start Ollama first.'')"
    by (simp add: process_with_ollama_def ollama_handler_def Let_def)
  show ?thesis
    using enhancement_failure_recovery
            [of "[1/2]" "\<lambda>a r. Inr (''t.wav'', 1, None)" 16000 "''t.wav''" 1 None
                "\<lambda>p l. Inr \<lparr>result_text = ''hello'', language = ''en''\<rparr>" "''auto''"
                "\<lparr>result_text = ''hello'', language = ''en''\<rparr>" ?oll "''improve''"
                "Exception ''Ollama is not running. Please start Ollama first.''"]
      fail
    by simp
qed

section \<open>Properties of the overlay\<close>

text \<open>
  C9 (auto-hide idempotence). \<open>_auto_hide\<close> is a total function of the overlay object
  (it raises nothing), and running it twice in a row gives the same object as running
  it once: the hide timer is cleared, the second run changes neither the visibility
  flag nor the window, and when the window exists the overlay ends hidden.
\<close>

theorem auto_hide_idempotent:
  "auto_hide (auto_hide s) = auto_hide s
   \<and> hide_timer (auto_hide s) = None
   \<and> is_visible (auto_hide (auto_hide s)) = is_visible (auto_hide s)
   \<and> overlay (auto_hide (auto_hide s)) = overlay (auto_hide s)
   \<and> (overlay s \<noteq> None \<longrightarrow>
        \<not> is_visible (auto_hide s)
        \<and> (is_visible s \<longrightarrow> overlay (auto_hide s) = Some \<lparr>mapped = False\<rparr>))"
  by (cases "overlay s") (auto simp add: auto_hide_def Let_def)

theorem auto_hide_idempotent_witness:
  "auto_hide (auto_hide \<lparr>overlay = Some \<lparr>mapped = True\<rparr>, is_visible = True,
                         hide_timer = Some 4, pending = [4]\<rparr>)
     = \<lparr>overlay = Some \<lparr>mapped = False\<rparr>, is_visible = False,
        hide_timer = None, pending = [4]\<rparr>"
  using auto_hide_idempotent
          [of "\<lparr>overlay = Some \<lparr>mapped = True\<rparr>, is_visible = True,
                hide_timer = Some 4, pending = [4]\<rparr>"]
  by (simp add: auto_hide_def)


section \<open>Auxiliary facts about the loop and the frame iteration\<close>

lemma on_voice_exact:
  "on_voice chunk s =
     (let s1 = s\<lparr>idle_duration := 0\<rparr>;
          s2 = (if \<not> is_speaking s1
                then s1\<lparr>is_speaking := True, silence_buffer := [], silence_duration := 0\<rparr>
                else s1);
          s3 = s2\<lparr>silence_buffer := silence_buffer s2 @ chunk\<rparr>;
          buffer_duration = real (length (silence_buffer s3)) / real app_sample_rate
      in if buffer_duration \<ge> max_buffer_duration
         then ([Dispatch ForceFlush (silence_buffer s3) (silence_duration s3)],
               s3\<lparr>silence_buffer := [], silence_duration := 0\<rparr>)
         else ([], s3))"
  by (simp add: on_voice_def on_voice_fp_def)

lemma on_silence_exact:
  "on_silence st chunk s =
     (if \<not> is_speaking s
      then
        let s1 = s\<lparr>idle_duration := idle_duration s + chunk_duration\<rparr>
        in if idle_timeout st > 0 \<and> idle_duration s1 \<ge> idle_timeout st
           then ([StopSignal], s1, True)
           else ([], s1, False)
      else
        let s1 = s\<lparr>silence_buffer := silence_buffer s @ chunk,
                   silence_duration := silence_duration s + chunk_duration\<rparr>
        in if silence_duration s1 \<ge> pause_threshold st
           then
             let total = real (length (silence_buffer s1)) / real app_sample_rate;
                 voice_duration = total - silence_duration s1;
                 started =
                   (if voice_duration < 1/2 then []
                    else if length (silence_buffer s1) > 0
                    then [Dispatch PauseTimeout (silence_buffer s1) (silence_duration s1)]
                    else [])
             in (started,
                 s1\<lparr>silence_buffer := [], silence_duration := 0, is_speaking := False,
                    idle_duration := 0\<rparr>,
                 False)
           else ([], s1, False))"
  by (simp add: on_silence_def on_silence_fp_def)

lemma flush_remaining_exact:
  "flush_remaining s =
     (if is_speaking s \<and> length (silence_buffer s) > 0
      then
        let total = real (length (silence_buffer s)) / real app_sample_rate;
            voice_duration = total - silence_duration s
        in if voice_duration < 1/2 then []
           else if total \<ge> 3/10
           then [Dispatch StopFlush (silence_buffer s) (silence_duration s)]
           else []
      else [])"
  by (simp add: flush_remaining_def flush_remaining_fp_def)

lemma while_loop_exact:
  "while_loop run vad_available st [] v s =
     \<lparr>effects = [], final_state = s, final_vad = v, raised = None\<rparr>"
  "while_loop run vad_available st (audio_buffer # rest) v s =
     (let s0 = s\<lparr>loop_count := loop_count s + 1\<rparr>
      in if audio_buffer = [] then while_loop run vad_available st rest v s0
         else
           (case check_voice_activity run vad_available st (concat audio_buffer) v of
              (Inl e, v') \<Rightarrow>
                \<lparr>effects = [], final_state = s0, final_vad = v', raised = Some e\<rparr>
            | (Inr is_voice, v') \<Rightarrow>
                if is_voice
                then emit (fst (on_voice (concat audio_buffer) s0))
                       (while_loop run vad_available st rest v'
                          (snd (on_voice (concat audio_buffer) s0)))
                else
                  (case on_silence st (concat audio_buffer) s0 of
                     (started, s1, True) \<Rightarrow>
                       \<lparr>effects = started, final_state = s1, final_vad = v', raised = None\<rparr>
                   | (started, s1, False) \<Rightarrow>
                       emit started (while_loop run vad_available st rest v' s1))))"
  by (simp_all only: while_loop_def on_voice_def on_silence_def while_loop_fp.simps)

lemma continuous_loop_exact:
  "continuous_loop run vad_available st ticks v =
     (let r = while_loop run vad_available st ticks
                (if vad_available then reset_states v else v) initial_loop_state
      in if raised r = None
         then r\<lparr>effects := effects r @ flush_remaining (final_state r)\<rparr>
         else r)"
  by (simp only: continuous_loop_def continuous_loop_fp_def while_loop_def flush_remaining_def)

lemma emit_Nil: "emit [] r = r"
  by (simp add: emit_def)

lemma funpow_max: "(max (a::real) ^^ k) a = a"
  by (induction k) simp_all

lemma np_max_abs_replicate: "0 < n \<Longrightarrow> np_max_abs (replicate n a) = Inr \<bar>a\<bar>"
  by (cases n) (simp_all add: np_max_abs_def funpow_max)

lemma length_concat_replicate: "length (concat (replicate k c)) = k * length c"
  by (induction k) simp_all

lemma amplitude_check:
  "np_max_abs c = Inr m \<Longrightarrow>
   check_voice_activity run False st c v = (Inr (silence_threshold st \<le> m), v)"
  by (simp add: check_voice_activity_def)

lemma voiced_run:
  assumes c: "np_max_abs c = Inr m" "silence_threshold st \<le> m"
  shows "length buf + k * length c < 480000 \<Longrightarrow>
     while_loop run False st (replicate k [c] @ rest) v
       \<lparr>silence_buffer = buf, silence_duration = sd, is_speaking = True, loop_count = n,
        idle_duration = 0\<rparr>
     = while_loop run False st rest v
       \<lparr>silence_buffer = buf @ concat (replicate k c), silence_duration = sd,
        is_speaking = True, loop_count = n + k, idle_duration = 0\<rparr>"
proof (induction k arbitrary: buf n)
  case 0
  then show ?case by simp
next
  case (Suc k)
  have "length (buf @ c) < 480000"
    using Suc.prems by simp
  then have small: "real (length (buf @ c)) / 16000 < 30"
    by simp
  have step: "on_voice c \<lparr>silence_buffer = buf, silence_duration = sd, is_speaking = True,
                loop_count = Suc n, idle_duration = 0\<rparr>
              = ([], \<lparr>silence_buffer = buf @ c, silence_duration = sd, is_speaking = True,
                loop_count = Suc n, idle_duration = 0\<rparr>)"
    using small by (simp add: on_voice_exact Let_def app_sample_rate_def max_buffer_duration_def)
  have "length (buf @ c) + k * length c < 480000"
    using Suc.prems by simp
  from Suc.IH [OF this, of "Suc n"] show ?case
    using c step by (simp add: amplitude_check emit_Nil Let_def while_loop_exact)
qed

lemma voiced_run_idle:
  assumes c: "np_max_abs c = Inr m" "silence_threshold st \<le> m"
    and len: "Suc k * length c < 480000"
  shows "while_loop run False st (replicate (Suc k) [c] @ rest) v
       \<lparr>silence_buffer = buf, silence_duration = sd, is_speaking = False, loop_count = n,
        idle_duration = idl\<rparr>
     = while_loop run False st rest v
       \<lparr>silence_buffer = concat (replicate (Suc k) c), silence_duration = 0,
        is_speaking = True, loop_count = n + Suc k, idle_duration = 0\<rparr>"
proof -
  have "length c < 480000"
    using len by simp
  then have small: "real (length c) / 16000 < 30"
    by simp
  have step: "on_voice c \<lparr>silence_buffer = buf, silence_duration = sd, is_speaking = False,
                loop_count = Suc n, idle_duration = idl\<rparr>
              = ([], \<lparr>silence_buffer = c, silence_duration = 0, is_speaking = True,
                loop_count = Suc n, idle_duration = 0\<rparr>)"
    using small by (simp add: on_voice_exact Let_def app_sample_rate_def max_buffer_duration_def)
  have "length c + k * length c < 480000"
    using len by simp
  from voiced_run [OF c this, of run rest v 0 "Suc n"] show ?thesis
    using c step by (simp add: amplitude_check emit_Nil Let_def while_loop_exact)
qed

lemma force_flush_tick:
  assumes c: "np_max_abs c = Inr m" "silence_threshold st \<le> m"
    and len: "480000 \<le> length buf + length c"
  shows "while_loop run False st ([c] # rest) v
       \<lparr>silence_buffer = buf, silence_duration = sd, is_speaking = True, loop_count = n,
        idle_duration = 0\<rparr>
     = emit [Dispatch ForceFlush (buf @ c) sd]
        (while_loop run False st rest v
          \<lparr>silence_buffer = [], silence_duration = 0, is_speaking = True,
           loop_count = Suc n, idle_duration = 0\<rparr>)"
proof -
  have "480000 \<le> length (buf @ c)"
    using len by simp
  then have big: "30 \<le> real (length (buf @ c)) / 16000"
    by simp
  have step: "on_voice c \<lparr>silence_buffer = buf, silence_duration = sd, is_speaking = True,
                loop_count = Suc n, idle_duration = 0\<rparr>
              = ([Dispatch ForceFlush (buf @ c) sd],
                 \<lparr>silence_buffer = [], silence_duration = 0, is_speaking = True,
                  loop_count = Suc n, idle_duration = 0\<rparr>)"
    using big by (simp add: on_voice_exact Let_def app_sample_rate_def max_buffer_duration_def)
  show ?thesis
    using c step by (simp add: amplitude_check Let_def while_loop_exact)
qed

lemma silent_run:
  assumes c: "np_max_abs c = Inr m" "m < silence_threshold st"
  shows "sd + real k / 10 < pause_threshold st \<Longrightarrow>
     while_loop run False st (replicate k [c] @ rest) v
       \<lparr>silence_buffer = buf, silence_duration = sd, is_speaking = True, loop_count = n,
        idle_duration = idl\<rparr>
     = while_loop run False st rest v
       \<lparr>silence_buffer = buf @ concat (replicate k c), silence_duration = sd + real k / 10,
        is_speaking = True, loop_count = n + k, idle_duration = idl\<rparr>"
proof (induction k arbitrary: buf n sd)
  case 0
  then show ?case by simp
next
  case (Suc k)
  have below: "sd + 1 / 10 < pause_threshold st"
    using Suc.prems by (simp add: field_simps)
  have step: "on_silence st c \<lparr>silence_buffer = buf, silence_duration = sd, is_speaking = True,
                loop_count = Suc n, idle_duration = idl\<rparr>
              = ([], \<lparr>silence_buffer = buf @ c, silence_duration = sd + 1 / 10,
                  is_speaking = True, loop_count = Suc n, idle_duration = idl\<rparr>, False)"
    using below by (simp add: on_silence_exact Let_def chunk_duration_def)
  have "(sd + 1 / 10) + real k / 10 < pause_threshold st"
    using Suc.prems by (simp add: field_simps)
  from Suc.IH [OF this, of "buf @ c" "Suc n"] show ?case
    using c step by (simp add: amplitude_check emit_Nil Let_def field_simps while_loop_exact)
qed

lemma pause_tick_dispatch:
  assumes c: "np_max_abs c = Inr m" "m < silence_threshold st"
    and reach: "pause_threshold st \<le> sd + 1 / 10"
    and voiced: "1 / 2 \<le> real (length buf + length c) / 16000 - (sd + 1 / 10)"
    and sd: "0 \<le> sd"
  shows "while_loop run False st ([c] # rest) v
       \<lparr>silence_buffer = buf, silence_duration = sd, is_speaking = True, loop_count = n,
        idle_duration = idl\<rparr>
     = emit [Dispatch PauseTimeout (buf @ c) (sd + 1 / 10)]
        (while_loop run False st rest v
          \<lparr>silence_buffer = [], silence_duration = 0, is_speaking = False,
           loop_count = Suc n, idle_duration = 0\<rparr>)"
proof -
  have "0 < real (length buf + length c)"
    using voiced sd by (simp add: field_simps)
  then have nonempty: "buf \<noteq> [] \<or> c \<noteq> []"
    by auto
  have step: "on_silence st c \<lparr>silence_buffer = buf, silence_duration = sd, is_speaking = True,
                loop_count = Suc n, idle_duration = idl\<rparr>
              = ([Dispatch PauseTimeout (buf @ c) (sd + 1 / 10)],
                 \<lparr>silence_buffer = [], silence_duration = 0, is_speaking = False,
                  loop_count = Suc n, idle_duration = 0\<rparr>, False)"
    using reach voiced nonempty
    by (auto simp add: on_silence_exact Let_def chunk_duration_def app_sample_rate_def)
  show ?thesis
    using c by (simp add: amplitude_check Let_def step while_loop_exact)
qed

lemma pause_tick_discard:
  assumes c: "np_max_abs c = Inr m" "m < silence_threshold st"
    and reach: "pause_threshold st \<le> sd + 1 / 10"
    and voiced: "real (length buf + length c) / 16000 - (sd + 1 / 10) < 1 / 2"
  shows "while_loop run False st ([c] # rest) v
       \<lparr>silence_buffer = buf, silence_duration = sd, is_speaking = True, loop_count = n,
        idle_duration = idl\<rparr>
     = while_loop run False st rest v
          \<lparr>silence_buffer = [], silence_duration = 0, is_speaking = False,
           loop_count = Suc n, idle_duration = 0\<rparr>"
proof -
  have step: "on_silence st c \<lparr>silence_buffer = buf, silence_duration = sd, is_speaking = True,
                loop_count = Suc n, idle_duration = idl\<rparr>
              = ([],
                 \<lparr>silence_buffer = [], silence_duration = 0, is_speaking = False,
                  loop_count = Suc n, idle_duration = 0\<rparr>, False)"
    using reach voiced
    by (auto simp add: on_silence_exact Let_def chunk_duration_def app_sample_rate_def)
  show ?thesis
    using c by (simp add: amplitude_check Let_def step while_loop_exact emit_Nil)
qed

lemma idle_run:
  assumes c: "np_max_abs c = Inr m" "m < silence_threshold st"
  shows "idle_timeout st \<le> 0 \<or> idl + real k / 10 < idle_timeout st \<Longrightarrow>
     while_loop run False st (replicate k [c] @ rest) v
       \<lparr>silence_buffer = buf, silence_duration = sd, is_speaking = False, loop_count = n,
        idle_duration = idl\<rparr>
     = while_loop run False st rest v
       \<lparr>silence_buffer = buf, silence_duration = sd, is_speaking = False,
        loop_count = n + k, idle_duration = idl + real k / 10\<rparr>"
proof (induction k arbitrary: n idl)
  case 0
  then show ?case by simp
next
  case (Suc k)
  have below: "idle_timeout st \<le> 0 \<or> idl + 1 / 10 < idle_timeout st"
    using Suc.prems by (auto simp add: field_simps)
  have step: "on_silence st c \<lparr>silence_buffer = buf, silence_duration = sd, is_speaking = False,
                loop_count = Suc n, idle_duration = idl\<rparr>
              = ([], \<lparr>silence_buffer = buf, silence_duration = sd, is_speaking = False,
                  loop_count = Suc n, idle_duration = idl + 1 / 10\<rparr>, False)"
    using below by (auto simp add: on_silence_exact Let_def chunk_duration_def)
  have "idle_timeout st \<le> 0 \<or> (idl + 1 / 10) + real k / 10 < idle_timeout st"
    using Suc.prems by (auto simp add: field_simps)
  from Suc.IH [OF this, of "Suc n"] show ?case
    using c step by (simp add: amplitude_check emit_Nil Let_def field_simps while_loop_exact)
qed

lemma concat_replicate_snoc: "concat (replicate k c) @ c = concat (replicate (Suc k) c)"
  by (induction k) simp_all

lemma voiced_chunk_facts:
  "np_max_abs voiced_chunk = Inr (1/2)" "length voiced_chunk = 1600"
  by (simp_all add: voiced_chunk_def np_max_abs_replicate)

lemma silent_chunk_facts:
  "np_max_abs silent_chunk = Inr 0" "length silent_chunk = 1600"
  by (simp_all add: silent_chunk_def np_max_abs_replicate)

lemma pause_scenario:
  "while_loop run False default_settings
     (replicate 20 [voiced_chunk] @ replicate 16 [silent_chunk]) v initial_loop_state
   = \<lparr>effects = [Dispatch PauseTimeout
                   (concat (replicate 20 voiced_chunk) @ concat (replicate 15 silent_chunk))
                   (3/2)],
      final_state = \<lparr>silence_buffer = [], silence_duration = 0, is_speaking = False,
                     loop_count = 36, idle_duration = 1/10\<rparr>,
      final_vad = v, raised = None\<rparr>"
proof -
  let ?st = default_settings
  have thr: "silence_threshold ?st \<le> 1/2" "0 < silence_threshold ?st"
    by (simp_all add: default_settings_def)
  note vc = voiced_chunk_facts(1) thr(1)
  note sc = silent_chunk_facts(1) thr(2)
  have split: "replicate 16 [silent_chunk]
                 = replicate 14 [silent_chunk] @ ([silent_chunk] # (replicate 1 [silent_chunk] @ []))"
    using replicate_add [of 14 2 "[silent_chunk]"] by (simp add: numeral_2_eq_2)
  have a: "while_loop run False ?st (replicate 20 [voiced_chunk] @ replicate 16 [silent_chunk]) v
              initial_loop_state
           = while_loop run False ?st (replicate 16 [silent_chunk]) v
              \<lparr>silence_buffer = concat (replicate 20 voiced_chunk), silence_duration = 0,
               is_speaking = True, loop_count = 20, idle_duration = 0\<rparr>"
    using voiced_run_idle [OF vc, of 19 run "replicate 16 [silent_chunk]" v "[]" 0 0 0]
    by (simp add: voiced_chunk_facts initial_loop_state_def)
  have b: "while_loop run False ?st (replicate 16 [silent_chunk]) v
              \<lparr>silence_buffer = concat (replicate 20 voiced_chunk), silence_duration = 0,
               is_speaking = True, loop_count = 20, idle_duration = 0\<rparr>
           = while_loop run False ?st ([silent_chunk] # (replicate 1 [silent_chunk] @ [])) v
              \<lparr>silence_buffer = concat (replicate 20 voiced_chunk) @ concat (replicate 14 silent_chunk),
               silence_duration = 7/5, is_speaking = True, loop_count = 34, idle_duration = 0\<rparr>"
    unfolding split
    using silent_run [OF sc, of 0 14 run "[silent_chunk] # (replicate 1 [silent_chunk] @ [])" v
             "concat (replicate 20 voiced_chunk)" 20 0]
    by (simp add: default_settings_def)
  have c: "while_loop run False ?st ([silent_chunk] # (replicate 1 [silent_chunk] @ [])) v
              \<lparr>silence_buffer = concat (replicate 20 voiced_chunk) @ concat (replicate 14 silent_chunk),
               silence_duration = 7/5, is_speaking = True, loop_count = 34, idle_duration = 0\<rparr>
           = emit [Dispatch PauseTimeout
                   (concat (replicate 20 voiced_chunk) @ concat (replicate 15 silent_chunk)) (3/2)]
              (while_loop run False ?st (replicate 1 [silent_chunk] @ []) v
                \<lparr>silence_buffer = [], silence_duration = 0, is_speaking = False,
                 loop_count = 35, idle_duration = 0\<rparr>)"
    using pause_tick_dispatch [OF sc, of "7/5"
             "concat (replicate 20 voiced_chunk) @ concat (replicate 14 silent_chunk)"
             run "replicate 1 [silent_chunk] @ []" v 34 0]
      concat_replicate_snoc [of 14 silent_chunk]
    by (simp add: default_settings_def length_concat_replicate voiced_chunk_facts
          silent_chunk_facts)
  have d: "while_loop run False ?st (replicate 1 [silent_chunk] @ []) v
                \<lparr>silence_buffer = [], silence_duration = 0, is_speaking = False,
                 loop_count = 35, idle_duration = 0\<rparr>
           = \<lparr>effects = [],
              final_state = \<lparr>silence_buffer = [], silence_duration = 0, is_speaking = False,
                     loop_count = 36, idle_duration = 1/10\<rparr>,
              final_vad = v, raised = None\<rparr>"
    using idle_run [OF sc, of 0 1 run "[]" v "[]" 0 35]
    by (simp add: default_settings_def while_loop_exact)
  show ?thesis
    unfolding a b c d by (simp add: emit_def)
qed

lemma pause_scenario_chunk:
  assumes quiet: "np_max_abs c = Inr 0"
  shows "while_loop run False default_settings
     (replicate 20 [voiced_chunk] @ replicate 16 [c]) v initial_loop_state
   = \<lparr>effects = [Dispatch PauseTimeout
                   (concat (replicate 20 voiced_chunk) @ concat (replicate 15 c))
                   (3/2)],
      final_state = \<lparr>silence_buffer = [], silence_duration = 0, is_speaking = False,
                     loop_count = 36, idle_duration = 1/10\<rparr>,
      final_vad = v, raised = None\<rparr>"
proof -
  let ?st = default_settings
  have thr: "silence_threshold ?st \<le> 1/2" "0 < silence_threshold ?st"
    by (simp_all add: default_settings_def)
  note vc = voiced_chunk_facts(1) thr(1)
  note sc = quiet thr(2)
  have split: "replicate 16 [c]
                 = replicate 14 [c] @ ([c] # (replicate 1 [c] @ []))"
    using replicate_add [of 14 2 "[c]"] by (simp add: numeral_2_eq_2)
  have a: "while_loop run False ?st (replicate 20 [voiced_chunk] @ replicate 16 [c]) v
              initial_loop_state
           = while_loop run False ?st (replicate 16 [c]) v
              \<lparr>silence_buffer = concat (replicate 20 voiced_chunk), silence_duration = 0,
               is_speaking = True, loop_count = 20, idle_duration = 0\<rparr>"
    using voiced_run_idle [OF vc, of 19 run "replicate 16 [c]" v "[]" 0 0 0]
    by (simp add: voiced_chunk_facts initial_loop_state_def)
  have b: "while_loop run False ?st (replicate 16 [c]) v
              \<lparr>silence_buffer = concat (replicate 20 voiced_chunk), silence_duration = 0,
               is_speaking = True, loop_count = 20, idle_duration = 0\<rparr>
           = while_loop run False ?st ([c] # (replicate 1 [c] @ [])) v
              \<lparr>silence_buffer = concat (replicate 20 voiced_chunk) @ concat (replicate 14 c),
               silence_duration = 7/5, is_speaking = True, loop_count = 34, idle_duration = 0\<rparr>"
    unfolding split
    using silent_run [OF sc, of 0 14 run "[c] # (replicate 1 [c] @ [])" v
             "concat (replicate 20 voiced_chunk)" 20 0]
    by (simp add: default_settings_def)
  have c: "while_loop run False ?st ([c] # (replicate 1 [c] @ [])) v
              \<lparr>silence_buffer = concat (replicate 20 voiced_chunk) @ concat (replicate 14 c),
               silence_duration = 7/5, is_speaking = True, loop_count = 34, idle_duration = 0\<rparr>
           = emit [Dispatch PauseTimeout
                   (concat (replicate 20 voiced_chunk) @ concat (replicate 15 c)) (3/2)]
              (while_loop run False ?st (replicate 1 [c] @ []) v
                \<lparr>silence_buffer = [], silence_duration = 0, is_speaking = False,
                 loop_count = 35, idle_duration = 0\<rparr>)"
    using pause_tick_dispatch [OF sc, of "7/5"
             "concat (replicate 20 voiced_chunk) @ concat (replicate 14 c)"
             run "replicate 1 [c] @ []" v 34 0]
      concat_replicate_snoc [of 14 c]
    by (simp add: default_settings_def length_concat_replicate voiced_chunk_facts
          quiet)
  have d: "while_loop run False ?st (replicate 1 [c] @ []) v
                \<lparr>silence_buffer = [], silence_duration = 0, is_speaking = False,
                 loop_count = 35, idle_duration = 0\<rparr>
           = \<lparr>effects = [],
              final_state = \<lparr>silence_buffer = [], silence_duration = 0, is_speaking = False,
                     loop_count = 36, idle_duration = 1/10\<rparr>,
              final_vad = v, raised = None\<rparr>"
    using idle_run [OF sc, of 0 1 run "[]" v "[]" 0 35]
    by (simp add: default_settings_def while_loop_exact)
  show ?thesis
    unfolding a b c d by (simp add: emit_def)
qed

lemma force_flush_scenario:
  "while_loop run False default_settings (replicate 310 [voiced_chunk]) v initial_loop_state
   = \<lparr>effects = [Dispatch ForceFlush (concat (replicate 300 voiced_chunk)) 0],
      final_state = \<lparr>silence_buffer = concat (replicate 10 voiced_chunk),
                     silence_duration = 0, is_speaking = True, loop_count = 310,
                     idle_duration = 0\<rparr>,
      final_vad = v, raised = None\<rparr>"
proof -
  let ?st = default_settings
  have thr: "silence_threshold ?st \<le> 1/2"
    by (simp add: default_settings_def)
  note vc = voiced_chunk_facts(1) thr
  have split: "replicate 310 [voiced_chunk]
                 = replicate 299 [voiced_chunk]
                   @ ([voiced_chunk] # (replicate 10 [voiced_chunk] @ []))"
    using replicate_add [of 299 11 "[voiced_chunk]"] replicate_add [of 1 10 "[voiced_chunk]"]
    by simp
  have a: "while_loop run False ?st
              (replicate 299 [voiced_chunk] @ ([voiced_chunk] # (replicate 10 [voiced_chunk] @ [])))
              v initial_loop_state
           = while_loop run False ?st ([voiced_chunk] # (replicate 10 [voiced_chunk] @ [])) v
              \<lparr>silence_buffer = concat (replicate 299 voiced_chunk), silence_duration = 0,
               is_speaking = True, loop_count = 299, idle_duration = 0\<rparr>"
    using voiced_run_idle [OF vc, of 298 run
             "[voiced_chunk] # (replicate 10 [voiced_chunk] @ [])" v "[]" 0 0 0]
    by (simp add: voiced_chunk_facts initial_loop_state_def)
  have b: "while_loop run False ?st ([voiced_chunk] # (replicate 10 [voiced_chunk] @ [])) v
              \<lparr>silence_buffer = concat (replicate 299 voiced_chunk), silence_duration = 0,
               is_speaking = True, loop_count = 299, idle_duration = 0\<rparr>
           = emit [Dispatch ForceFlush (concat (replicate 300 voiced_chunk)) 0]
              (while_loop run False ?st (replicate 10 [voiced_chunk] @ []) v
                \<lparr>silence_buffer = [], silence_duration = 0, is_speaking = True,
                 loop_count = 300, idle_duration = 0\<rparr>)"
    using force_flush_tick [OF vc, of "concat (replicate 299 voiced_chunk)" run
             "replicate 10 [voiced_chunk] @ []" v 0 299]
      concat_replicate_snoc [of 299 voiced_chunk]
    by (simp add: length_concat_replicate voiced_chunk_facts)
  have c: "while_loop run False ?st (replicate 10 [voiced_chunk] @ []) v
                \<lparr>silence_buffer = [], silence_duration = 0, is_speaking = True,
                 loop_count = 300, idle_duration = 0\<rparr>
           = \<lparr>effects = [],
              final_state = \<lparr>silence_buffer = concat (replicate 10 voiced_chunk),
                     silence_duration = 0, is_speaking = True, loop_count = 310,
                     idle_duration = 0\<rparr>,
              final_vad = v, raised = None\<rparr>"
    using voiced_run [OF vc, of "[]" 10 run "[]" v 0 300]
    by (simp add: voiced_chunk_facts while_loop_exact)
  show ?thesis
    unfolding split a b c by (simp add: emit_def)
qed









lemma round_double_chunk:
  "round_double chunk_duration = 3602879701896397 / 36028797018963968"
  by (simp add: chunk_duration_def round_double_def normalise.simps round_half_even_def Let_def)

text \<open>
  The roundings met when the double 0.1 is added 101 times, starting from 0: each line
  gives the exact sum of the counter and 0.1, and the double it rounds to.
\<close>

lemma double_steps:
  "round_double (3602879701896397 / 36028797018963968) = 3602879701896397 / 36028797018963968"
  "round_double (3602879701896397 / 18014398509481984) = 3602879701896397 / 18014398509481984"
  "round_double (10808639105689191 / 36028797018963968) = 1351079888211149 / 4503599627370496"
  "round_double (14411518807585589 / 36028797018963968) = 3602879701896397 / 9007199254740992"
  "round_double (18014398509481985 / 36028797018963968) = 1 / 2"
  "round_double (21617278211378381 / 36028797018963968) = 5404319552844595 / 9007199254740992"
  "round_double (25220157913274777 / 36028797018963968) = 3152519739159347 / 4503599627370496"
  "round_double (28823037615171173 / 36028797018963968) = 7205759403792793 / 9007199254740992"
  "round_double (32425917317067569 / 36028797018963968) = 2026619832316723 / 2251799813685248"
  "round_double (36028797018963965 / 36028797018963968) = 9007199254740991 / 9007199254740992"
  "round_double (39631676720860361 / 36028797018963968) = 4953959590107545 / 4503599627370496"
  "round_double (43234556422756757 / 36028797018963968) = 5404319552844595 / 4503599627370496"
  "round_double (46837436124653157 / 36028797018963968) = 5854679515581645 / 4503599627370496"
  "round_double (50440315826549557 / 36028797018963968) = 6305039478318695 / 4503599627370496"
  "round_double (54043195528445957 / 36028797018963968) = 6755399441055745 / 4503599627370496"
  "round_double (57646075230342357 / 36028797018963968) = 7205759403792795 / 4503599627370496"
  "round_double (61248954932238757 / 36028797018963968) = 7656119366529845 / 4503599627370496"
  "round_double (64851834634135157 / 36028797018963968) = 8106479329266895 / 4503599627370496"
  "round_double (68454714336031557 / 36028797018963968) = 8556839292003945 / 4503599627370496"
  "round_double (72057594037927957 / 36028797018963968) = 4503599627370497 / 2251799813685248"
  "round_double (75660473739824349 / 36028797018963968) = 2364389804369511 / 1125899906842624"
  "round_double (79263353441720749 / 36028797018963968) = 4953959590107547 / 2251799813685248"
  "round_double (82866233143617149 / 36028797018963968) = 647392446434509 / 281474976710656"
  "round_double (86469112845513549 / 36028797018963968) = 5404319552844597 / 2251799813685248"
  "round_double (90071992547409949 / 36028797018963968) = 2814749767106561 / 1125899906842624"
  "round_double (93674872249306349 / 36028797018963968) = 5854679515581647 / 2251799813685248"
  "round_double (97277751951202749 / 36028797018963968) = 1519964874237543 / 562949953421312"
  "round_double (100880631653099149 / 36028797018963968) = 6305039478318697 / 2251799813685248"
  "round_double (104483511354995549 / 36028797018963968) = 3265109729843611 / 1125899906842624"
  "round_double (108086391056891949 / 36028797018963968) = 6755399441055747 / 2251799813685248"
  "round_double (111689270758788349 / 36028797018963968) = 436286213901517 / 140737488355328"
  "round_double (115292150460684749 / 36028797018963968) = 7205759403792797 / 2251799813685248"
  "round_double (118895030162581149 / 36028797018963968) = 3715469692580661 / 1125899906842624"
  "round_double (122497909864477549 / 36028797018963968) = 7656119366529847 / 2251799813685248"
  "round_double (126100789566373949 / 36028797018963968) = 1970324836974593 / 562949953421312"
  "round_double (129703669268270349 / 36028797018963968) = 8106479329266897 / 2251799813685248"
  "round_double (133306548970166749 / 36028797018963968) = 4165829655317711 / 1125899906842624"
  "round_double (136909428672063149 / 36028797018963968) = 8556839292003947 / 2251799813685248"
  "round_double (140512308373959549 / 36028797018963968) = 1097752409171559 / 281474976710656"
  "round_double (144115188075855949 / 36028797018963968) = 2251799813685249 / 562949953421312"
  "round_double (147718067777752333 / 36028797018963968) = 577023702256845 / 140737488355328"
  "round_double (151320947479648717 / 36028797018963968) = 2364389804369511 / 562949953421312"
  "round_double (154923827181545101 / 36028797018963968) = 1210342399855821 / 281474976710656"
  "round_double (158526706883441485 / 36028797018963968) = 2476979795053773 / 562949953421312"
  "round_double (162129586585337869 / 36028797018963968) = 9 / 2"
  "round_double (165732466287234253 / 36028797018963968) = 2589569785738035 / 562949953421312"
  "round_double (169335345989130637 / 36028797018963968) = 1322932390540083 / 281474976710656"
  "round_double (172938225691027021 / 36028797018963968) = 2702159776422297 / 562949953421312"
  "round_double (176541105392923405 / 36028797018963968) = 689613692941107 / 140737488355328"
  "round_double (180143985094819789 / 36028797018963968) = 2814749767106559 / 562949953421312"
  "round_double (183746864796716173 / 36028797018963968) = 1435522381224345 / 281474976710656"
  "round_double (187349744498612557 / 36028797018963968) = 2927339757790821 / 562949953421312"
  "round_double (190952624200508941 / 36028797018963968) = 372954344141619 / 70368744177664"
  "round_double (194555503902405325 / 36028797018963968) = 3039929748475083 / 562949953421312"
  "round_double (198158383604301709 / 36028797018963968) = 1548112371908607 / 281474976710656"
  "round_double (201761263306198093 / 36028797018963968) = 3152519739159345 / 562949953421312"
  "round_double (205364143008094477 / 36028797018963968) = 802203683625369 / 140737488355328"
  "round_double (208967022709990861 / 36028797018963968) = 3265109729843607 / 562949953421312"
  "round_double (212569902411887245 / 36028797018963968) = 1660702362592869 / 281474976710656"
  "round_double (216172782113783629 / 36028797018963968) = 3377699720527869 / 562949953421312"
  "round_double (219775661815680013 / 36028797018963968) = 214624669741875 / 35184372088832"
  "round_double (223378541517576397 / 36028797018963968) = 3490289711212131 / 562949953421312"
  "round_double (226981421219472781 / 36028797018963968) = 1773292353277131 / 281474976710656"
  "round_double (230584300921369165 / 36028797018963968) = 3602879701896393 / 562949953421312"
  "round_double (234187180623265549 / 36028797018963968) = 914793674309631 / 140737488355328"
  "round_double (237790060325161933 / 36028797018963968) = 3715469692580655 / 562949953421312"
  "round_double (241392940027058317 / 36028797018963968) = 1885882343961393 / 281474976710656"
  "round_double (244995819728954701 / 36028797018963968) = 3828059683264917 / 562949953421312"
  "round_double (248598699430851085 / 36028797018963968) = 485544334825881 / 70368744177664"
  "round_double (252201579132747469 / 36028797018963968) = 3940649673949179 / 562949953421312"
  "round_double (255804458834643853 / 36028797018963968) = 1998472334645655 / 281474976710656"
  "round_double (259407338536540237 / 36028797018963968) = 4053239664633441 / 562949953421312"
  "round_double (263010218238436621 / 36028797018963968) = 1027383664993893 / 140737488355328"
  "round_double (266613097940333005 / 36028797018963968) = 4165829655317703 / 562949953421312"
  "round_double (270215977642229389 / 36028797018963968) = 2111062325329917 / 281474976710656"
  "round_double (273818857344125773 / 36028797018963968) = 4278419646001965 / 562949953421312"
  "round_double (277421737046022157 / 36028797018963968) = 135459832542003 / 17592186044416"
  "round_double (281024616747918541 / 36028797018963968) = 4391009636686227 / 562949953421312"
  "round_double (284627496449814925 / 36028797018963968) = 2223652316014179 / 281474976710656"
  "round_double (288230376151711309 / 36028797018963968) = 4503599627370489 / 562949953421312"
  "round_double (291833255853607693 / 36028797018963968) = 1139973655678155 / 140737488355328"
  "round_double (295436135555504077 / 36028797018963968) = 4616189618054751 / 562949953421312"
  "round_double (299039015257400461 / 36028797018963968) = 2336242306698441 / 281474976710656"
  "round_double (302641894959296845 / 36028797018963968) = 4728779608739013 / 562949953421312"
  "round_double (306244774661193229 / 36028797018963968) = 598134325510143 / 70368744177664"
  "round_double (309847654363089613 / 36028797018963968) = 4841369599423275 / 562949953421312"
  "round_double (313450534064985997 / 36028797018963968) = 2448832297382703 / 281474976710656"
  "round_double (317053413766882381 / 36028797018963968) = 4953959590107537 / 562949953421312"
  "round_double (320656293468778765 / 36028797018963968) = 1252563646362417 / 140737488355328"
  "round_double (324259173170675149 / 36028797018963968) = 5066549580791799 / 562949953421312"
  "round_double (327862052872571533 / 36028797018963968) = 2561422288066965 / 281474976710656"
  "round_double (331464932574467917 / 36028797018963968) = 5179139571476061 / 562949953421312"
  "round_double (335067812276364301 / 36028797018963968) = 327214660426137 / 35184372088832"
  "round_double (338670691978260685 / 36028797018963968) = 5291729562160323 / 562949953421312"
  "round_double (342273571680157069 / 36028797018963968) = 2674012278751227 / 281474976710656"
  "round_double (345876451382053453 / 36028797018963968) = 5404319552844585 / 562949953421312"
  "round_double (349479331083949837 / 36028797018963968) = 1365153637046679 / 140737488355328"
  "round_double (353082210785846221 / 36028797018963968) = 5516909543528847 / 562949953421312"
  "round_double (356685090487742605 / 36028797018963968) = 2786602269435489 / 281474976710656"
  "round_double (360287970189638989 / 36028797018963968) = 5629499534213109 / 562949953421312"
  "round_double (363890849891535373 / 36028797018963968) = 710724316194405 / 70368744177664"
  by (simp_all add: round_double_def normalise.simps round_half_even_def Let_def)

lemma first_reach_default:
  "first_reach round_double 10 0 120 = Some (101, 710724316194405 / 70368744177664)"
  "first_reach round_double 10 0 100 = None"
  by (simp_all add: eval_nat_numeral round_double_chunk double_steps Let_def)

lemma first_reach_Some:
  "first_reach rnd T d n = Some (k, c) \<Longrightarrow>
     1 \<le> k \<and> k \<le> n \<and> (\<forall>j. 1 \<le> j \<and> j < k \<longrightarrow> idle_counter rnd d j < T)
     \<and> T \<le> idle_counter rnd d k \<and> c = idle_counter rnd d k"
proof (induction n arbitrary: d k c)
  case 0
  then show ?case by simp
next
  case (Suc n)
  let ?d = "rnd (d + rnd chunk_duration)"
  show ?case
  proof (cases "T \<le> ?d")
    case True
    then show ?thesis
      using Suc.prems by (auto simp add: Let_def)
  next
    case False
    then obtain k' where rec: "first_reach rnd T ?d n = Some (k', c)" and k: "k = Suc k'"
      using Suc.prems by (auto simp add: Let_def)
    note ih = Suc.IH [OF rec]
    have "idle_counter rnd d j < T" if "1 \<le> j" "j < k" for j
    proof (cases j)
      case 0
      then show ?thesis using that by simp
    next
      case (Suc i)
      show ?thesis
      proof (cases i)
        case 0
        then show ?thesis using Suc False by simp
      next
        case (Suc i')
        then have "1 \<le> i" "i < k'"
          using that k \<open>j = Suc i\<close> by simp_all
        then have "idle_counter rnd ?d i < T"
          using ih by blast
        then show ?thesis
          using \<open>j = Suc i\<close> by simp
      qed
    qed
    then show ?thesis
      using ih k by auto
  qed
qed

lemma first_reach_None:
  "first_reach rnd T d n = None \<Longrightarrow> 1 \<le> j \<Longrightarrow> j \<le> n \<Longrightarrow> idle_counter rnd d j < T"
proof (induction n arbitrary: d j)
  case 0
  then show ?case by simp
next
  case (Suc n)
  let ?d = "rnd (d + rnd chunk_duration)"
  have below: "\<not> T \<le> ?d" and rec: "first_reach rnd T ?d n = None"
    using Suc.prems(1) by (auto simp add: Let_def split: if_splits)
  obtain i where j: "j = Suc i"
    using Suc.prems(2) by (cases j) simp_all
  show ?case
  proof (cases i)
    case 0
    then show ?thesis using j below by simp
  next
    case (Suc i')
    then have "idle_counter rnd ?d i < T"
      using Suc.IH [OF rec, of i] Suc.prems(3) j by simp
    then show ?thesis using j by simp
  qed
qed

lemma idle_stop_fp:
  assumes "\<forall>b\<in>set ticks. b \<noteq> [] \<and>
             (\<forall>v. fst (check_voice_activity run va st (concat b) v) = Inr False)"
    and "\<not> is_speaking s" and "0 < idle_timeout st"
    and "Suc j \<le> length ticks"
    and "\<forall>i. 1 \<le> i \<and> i \<le> j \<longrightarrow> idle_counter rnd (idle_duration s) i < idle_timeout st"
    and "idle_timeout st \<le> idle_counter rnd (idle_duration s) (Suc j)"
  shows "effects (while_loop_fp rnd run va st ticks v s) = [StopSignal]
       \<and> raised (while_loop_fp rnd run va st ticks v s) = None
       \<and> loop_count (final_state (while_loop_fp rnd run va st ticks v s)) = loop_count s + Suc j
       \<and> idle_duration (final_state (while_loop_fp rnd run va st ticks v s))
           = idle_counter rnd (idle_duration s) (Suc j)
       \<and> \<not> is_speaking (final_state (while_loop_fp rnd run va st ticks v s))"
  using assms
proof (induction ticks arbitrary: s j v)
  case Nil
  then show ?case by simp
next
  case (Cons b rest)
  let ?d = "rnd (idle_duration s + rnd chunk_duration)"
  let ?s0 = "s\<lparr>loop_count := loop_count s + 1\<rparr>"
  let ?s1 = "?s0\<lparr>idle_duration := ?d\<rparr>"
  have b: "b \<noteq> []" and silent: "fst (check_voice_activity run va st (concat b) v) = Inr False"
    using Cons.prems(1) by simp_all
  obtain v' where chk: "check_voice_activity run va st (concat b) v = (Inr False, v')"
    using silent by (cases "check_voice_activity run va st (concat b) v") simp
  show ?case
  proof (cases j)
    case 0
    then have "idle_timeout st \<le> ?d"
      using Cons.prems(6) by simp
    then have "on_silence_fp rnd st (concat b) ?s0 = ([StopSignal], ?s1, True)"
      using Cons.prems(2,3) by (simp add: on_silence_fp_def Let_def)
    then show ?thesis
      using b chk 0 Cons.prems(2) by (simp add: while_loop_fp.simps Let_def)
  next
    case (Suc i)
    have below: "?d < idle_timeout st"
      using Cons.prems(5) [rule_format, of 1] Suc by simp
    have step: "on_silence_fp rnd st (concat b) ?s0 = ([], ?s1, False)"
      using Cons.prems(2) below by (simp add: on_silence_fp_def Let_def)
    have ih: "effects (while_loop_fp rnd run va st rest v' ?s1) = [StopSignal]
       \<and> raised (while_loop_fp rnd run va st rest v' ?s1) = None
       \<and> loop_count (final_state (while_loop_fp rnd run va st rest v' ?s1))
           = loop_count ?s1 + Suc i
       \<and> idle_duration (final_state (while_loop_fp rnd run va st rest v' ?s1))
           = idle_counter rnd (idle_duration ?s1) (Suc i)
       \<and> \<not> is_speaking (final_state (while_loop_fp rnd run va st rest v' ?s1))"
    proof (rule Cons.IH)
      show "\<forall>b\<in>set rest. b \<noteq> [] \<and>
              (\<forall>v. fst (check_voice_activity run va st (concat b) v) = Inr False)"
        using Cons.prems(1) by simp
      show "\<not> is_speaking ?s1" using Cons.prems(2) by simp
      show "0 < idle_timeout st" using Cons.prems(3) .
      show "Suc i \<le> length rest" using Cons.prems(4) Suc by simp
      show "\<forall>k. 1 \<le> k \<and> k \<le> i \<longrightarrow> idle_counter rnd (idle_duration ?s1) k < idle_timeout st"
      proof (intro allI impI)
        fix k assume "1 \<le> k \<and> k \<le> i"
        then have "idle_counter rnd (idle_duration s) (Suc k) < idle_timeout st"
          using Cons.prems(5) [rule_format, of "Suc k"] Suc by simp
        then show "idle_counter rnd (idle_duration ?s1) k < idle_timeout st"
          by simp
      qed
      show "idle_timeout st \<le> idle_counter rnd (idle_duration ?s1) (Suc i)"
        using Cons.prems(6) Suc by simp
    qed
    show ?thesis
      using b chk step ih Suc
      by (simp add: while_loop_fp.simps Let_def emit_def)
  qed
qed

lemma idle_continue_fp:
  assumes "\<forall>b\<in>set ticks. b \<noteq> [] \<and>
             (\<forall>v. fst (check_voice_activity run va st (concat b) v) = Inr False)"
    and "\<not> is_speaking s"
    and "\<forall>i. 1 \<le> i \<and> i \<le> length ticks \<longrightarrow>
           idle_counter rnd (idle_duration s) i < idle_timeout st"
  shows "effects (while_loop_fp rnd run va st ticks v s) = []
       \<and> raised (while_loop_fp rnd run va st ticks v s) = None
       \<and> loop_count (final_state (while_loop_fp rnd run va st ticks v s))
           = loop_count s + length ticks
       \<and> idle_duration (final_state (while_loop_fp rnd run va st ticks v s))
           = idle_counter rnd (idle_duration s) (length ticks)
       \<and> \<not> is_speaking (final_state (while_loop_fp rnd run va st ticks v s))"
  using assms
proof (induction ticks arbitrary: s v)
  case Nil
  then show ?case by (simp add: while_loop_fp.simps)
next
  case (Cons b rest)
  let ?d = "rnd (idle_duration s + rnd chunk_duration)"
  let ?s0 = "s\<lparr>loop_count := loop_count s + 1\<rparr>"
  let ?s1 = "?s0\<lparr>idle_duration := ?d\<rparr>"
  have b: "b \<noteq> []" and silent: "fst (check_voice_activity run va st (concat b) v) = Inr False"
    using Cons.prems(1) by simp_all
  obtain v' where chk: "check_voice_activity run va st (concat b) v = (Inr False, v')"
    using silent by (cases "check_voice_activity run va st (concat b) v") simp
  have below: "?d < idle_timeout st"
    using Cons.prems(3) [rule_format, of 1] by simp
  have step: "on_silence_fp rnd st (concat b) ?s0 = ([], ?s1, False)"
    using Cons.prems(2) below by (simp add: on_silence_fp_def Let_def)
  have ih: "effects (while_loop_fp rnd run va st rest v' ?s1) = []
       \<and> raised (while_loop_fp rnd run va st rest v' ?s1) = None
       \<and> loop_count (final_state (while_loop_fp rnd run va st rest v' ?s1))
           = loop_count ?s1 + length rest
       \<and> idle_duration (final_state (while_loop_fp rnd run va st rest v' ?s1))
           = idle_counter rnd (idle_duration ?s1) (length rest)
       \<and> \<not> is_speaking (final_state (while_loop_fp rnd run va st rest v' ?s1))"
  proof (rule Cons.IH)
    show "\<forall>b\<in>set rest. b \<noteq> [] \<and>
            (\<forall>v. fst (check_voice_activity run va st (concat b) v) = Inr False)"
      using Cons.prems(1) by simp
    show "\<not> is_speaking ?s1" using Cons.prems(2) by simp
    show "\<forall>i. 1 \<le> i \<and> i \<le> length rest \<longrightarrow>
            idle_counter rnd (idle_duration ?s1) i < idle_timeout st"
    proof (intro allI impI)
      fix i assume "1 \<le> i \<and> i \<le> length rest"
      then have "idle_counter rnd (idle_duration s) (Suc i) < idle_timeout st"
        using Cons.prems(3) [rule_format, of "Suc i"] by simp
      then show "idle_counter rnd (idle_duration ?s1) i < idle_timeout st"
        by simp
    qed
  qed
  show ?case
    using b chk step ih
    by (simp add: while_loop_fp.simps Let_def emit_def)
qed

lemma process_valid:
  "length f = 512 \<Longrightarrow>
     process run f v =
       (Inr (fst (run (vad_context v @ f) (vad_state v) 16000)),
        \<lparr>vad_state = snd (run (vad_context v @ f) (vad_state v) 16000),
         vad_context = drop 448 f\<rparr>)"
  by (simp add: process_def num_samples_def context_size_def vad_sample_rate_def
      split_beta Let_def)

lemma vad_frames_short: "length c < i + 512 \<Longrightarrow> vad_frames run c i m v = (Inr m, v)"
  by (subst vad_frames.simps) simp

lemma vad_frames_step:
  "i + 512 \<le> length c \<Longrightarrow>
     vad_frames run c i m v =
       vad_frames run c (i + 512)
         (max m (fst (run (vad_context v @ take 512 (drop i c)) (vad_state v) 16000)))
         (snd (process run (take 512 (drop i c)) v))"
proof -
  assume le: "i + 512 \<le> length c"
  then have len: "length (take 512 (drop i c)) = 512"
    by simp
  have cond: "int i < int (length c) - 511"
    using le by simp
  show ?thesis
    by (subst vad_frames.simps) (simp add: cond process_valid [OF len])
qed

lemma vad_frames_shift:
  "vad_frames run (pre @ c) (length pre + i) m v = vad_frames run c i m v"
proof (induction "length c - i" arbitrary: i m v rule: less_induct)
  case less
  show ?case
  proof (cases "i + 512 \<le> length c")
    case True
    have frame: "take 512 (drop (length pre + i) (pre @ c)) = take 512 (drop i c)"
      by simp
    have smaller: "length c - (i + 512) < length c - i"
      using True by simp
    have "vad_frames run (pre @ c) (length pre + i) m v
            = vad_frames run (pre @ c) (length pre + (i + 512))
                (max m (fst (run (vad_context v @ take 512 (drop i c)) (vad_state v) 16000)))
                (snd (process run (take 512 (drop i c)) v))"
      using True vad_frames_step [of "length pre + i" "pre @ c" run m v]
      by (simp add: frame add.assoc)
    also have "\<dots> = vad_frames run c (i + 512)
                (max m (fst (run (vad_context v @ take 512 (drop i c)) (vad_state v) 16000)))
                (snd (process run (take 512 (drop i c)) v))"
      by (rule less.hyps [OF smaller])
    also have "\<dots> = vad_frames run c i m v"
      using True by (simp add: vad_frames_step)
    finally show ?thesis .
  next
    case False
    then show ?thesis
      by (simp add: vad_frames_short)
  qed
qed

lemma vad_frames_unroll:
  assumes "length f = 512"
  shows "vad_frames run (f @ rest) 0 m v =
           vad_frames run rest 0
             (max m (fst (run (vad_context v @ f) (vad_state v) 16000)))
             (snd (process run f v))"
proof -
  have "vad_frames run (f @ rest) 0 m v =
          vad_frames run (f @ rest) (length f + 0)
            (max m (fst (run (vad_context v @ f) (vad_state v) 16000)))
            (snd (process run f v))"
    using assms vad_frames_step [of 0 "f @ rest" run m v] by simp
  then show ?thesis
    by (simp only: vad_frames_shift)
qed

lemma vad_frames_full:
  "length c div 512 = n \<Longrightarrow>
     vad_frames run c 0 m v = vad_frames run (take (512 * n) c) 0 m v"
proof (induction n arbitrary: c m v)
  case 0
  then have "length c < 512"
    by (simp add: div_eq_0_iff)
  then show ?case
    by (simp add: vad_frames_short)
next
  case (Suc n)
  let ?f = "take 512 c" and ?rest = "drop 512 c"
  have ge: "512 \<le> length c"
    using Suc.prems by (cases "length c < 512") simp_all
  then have f: "length ?f = 512"
    by simp
  have rest: "length ?rest div 512 = n"
    using Suc.prems le_div_geq [of 512 "length c"] ge by simp
  have c: "c = ?f @ ?rest"
    by simp
  have tk: "take (512 * Suc n) c = ?f @ take (512 * n) ?rest"
    by (metis append_take_drop_id f mult_Suc_right take_add take_drop)
  have "vad_frames run c 0 m v = vad_frames run (?f @ ?rest) 0 m v"
    by simp
  also have "\<dots> = vad_frames run ?rest 0
             (max m (fst (run (vad_context v @ ?f) (vad_state v) 16000)))
             (snd (process run ?f v))"
    by (rule vad_frames_unroll [OF f])
  also have "\<dots> = vad_frames run (take (512 * n) ?rest) 0
             (max m (fst (run (vad_context v @ ?f) (vad_state v) 16000)))
             (snd (process run ?f v))"
    by (rule Suc.IH [OF rest])
  also have "\<dots> = vad_frames run (?f @ take (512 * n) ?rest) 0 m v"
    by (rule vad_frames_unroll [OF f, symmetric])
  finally show ?case
    by (simp only: tk)
qed

lemma pause_scenario_loop:
  "continuous_loop run False default_settings
     (replicate 20 [voiced_chunk] @ replicate 16 [silent_chunk]) v
   = \<lparr>effects = [Dispatch PauseTimeout
                   (concat (replicate 20 voiced_chunk) @ concat (replicate 15 silent_chunk))
                   (3/2)],
      final_state = \<lparr>silence_buffer = [], silence_duration = 0, is_speaking = False,
                     loop_count = 36, idle_duration = 1/10\<rparr>,
      final_vad = v, raised = None\<rparr>"
  by (simp add: continuous_loop_exact pause_scenario flush_remaining_exact)

lemma force_flush_scenario_loop:
  "effects (continuous_loop run False default_settings (replicate 310 [voiced_chunk]) v)
   = [Dispatch ForceFlush (concat (replicate 300 voiced_chunk)) 0,
      Dispatch StopFlush (concat (replicate 10 voiced_chunk)) 0]"
  by (simp add: continuous_loop_exact force_flush_scenario flush_remaining_exact Let_def
      length_concat_replicate voiced_chunk_facts app_sample_rate_def)



lemma scenario_durations:
  "total_duration (concat (replicate 20 voiced_chunk) @ concat (replicate 15 silent_chunk)) = 7/2"
  "total_duration (concat (replicate 300 voiced_chunk)) = 30"
  "total_duration (concat (replicate 10 voiced_chunk)) = 1"
  "total_duration (concat (replicate 5 voiced_chunk)) = 1/2"
  "total_duration (voiced_chunk @ concat (replicate 298 silent_chunk) @ voiced_chunk) = 30"
  by (simp_all add: total_duration_def length_concat_replicate voiced_chunk_facts
      silent_chunk_facts app_sample_rate_def)

lemma pause_scenario_chunk_loop:
  assumes "0 < n"
  shows "continuous_loop run False default_settings
     (replicate 20 [voiced_chunk] @ replicate 16 [replicate n 0]) v
   = \<lparr>effects = [Dispatch PauseTimeout
                   (concat (replicate 20 voiced_chunk) @ concat (replicate 15 (replicate n 0)))
                   (3/2)],
      final_state = \<lparr>silence_buffer = [], silence_duration = 0, is_speaking = False,
                     loop_count = 36, idle_duration = 1/10\<rparr>,
      final_vad = v, raised = None\<rparr>"
proof -
  have "np_max_abs (replicate n 0) = Inr 0"
    using assms by (simp add: np_max_abs_replicate)
  then show ?thesis
    by (simp add: continuous_loop_exact pause_scenario_chunk flush_remaining_exact)
qed

lemma pause_scenario_chunk_duration:
  "total_duration (concat (replicate 20 voiced_chunk) @ concat (replicate 15 (replicate n 0)))
     = 2 + 15 * real n / 16000"
  by (simp add: total_duration_def length_concat_replicate voiced_chunk_facts
      app_sample_rate_def field_simps)

lemma pause_rule_fp:
  "is_speaking s \<Longrightarrow> silence_buffer s @ chunk \<noteq> [] \<Longrightarrow>
   pause_threshold st \<le> rnd (silence_duration s + rnd chunk_duration) \<Longrightarrow>
     on_silence_fp rnd st chunk s =
       ((if rnd (rnd (total_duration (silence_buffer s @ chunk))
                   - rnd (silence_duration s + rnd chunk_duration)) < 1/2
         then []
         else [Dispatch PauseTimeout (silence_buffer s @ chunk)
                 (rnd (silence_duration s + rnd chunk_duration))]),
        s\<lparr>silence_buffer := [], silence_duration := 0, is_speaking := False,
           idle_duration := 0\<rparr>,
        False)"
  by (cases "silence_buffer s @ chunk") (simp_all add: on_silence_fp_def Let_def total_duration_def)

lemma pause_rule_roundings:
  "round_double (31 / 10) = 6980579422424269 / 2251799813685248"
  "round_double (7205759403792793 / 4503599627370496) = 7205759403792793 / 4503599627370496"
  by (simp_all add: round_double_def normalise.simps round_half_even_def Let_def)

section \<open>Properties of the segmentation loop\<close>

text \<open>
  C1 (pause segmentation). While speaking, a silent chunk whose addition brings the
  silence counter to the pause threshold ends the utterance: with voiced duration =
  total duration - silence duration, a voiced duration below 0.5 s discards the buffer,
  otherwise exactly one segment holding the whole buffer (the trailing silence included)
  is dispatched; either way the buffer and the counters are cleared and the loop is idle
  again. Below the threshold the chunk is only appended. For 2.0 s of voice followed by
  silence, with the pause threshold 1.5, exactly one segment is dispatched, at the
  fifteenth silent chunk, whatever the length \<open>n\<close> of the silent chunks: its total
  duration is 2.0 s plus fifteen silent chunks and its voiced duration, as the loop
  computes it, is that total minus 1.5 s. For chunks of exactly 100 ms (1.6 s of silence
  in sixteen chunks) the total is 3.5 s and the voiced duration 2.0 s; for every chunk
  length from 1600 to 1706 samples the total is within one chunk duration of 3.6 s and
  the voiced duration within one chunk duration of 2.0 s. The first four statements are
  over exact arithmetic; the last gives the rule with every operation rounded as the
  loop performs it, for a buffer that is not empty.
\<close>

theorem pause_segmentation:
  "(is_speaking s \<and> 0 \<le> silence_duration s
      \<and> pause_threshold st \<le> silence_duration s + chunk_duration \<longrightarrow>
      on_silence st chunk s =
        ((if total_duration (silence_buffer s @ chunk) - (silence_duration s + chunk_duration)
               < 1/2
          then []
          else [Dispatch PauseTimeout (silence_buffer s @ chunk)
                  (silence_duration s + chunk_duration)]),
         s\<lparr>silence_buffer := [], silence_duration := 0, is_speaking := False,
            idle_duration := 0\<rparr>,
         False))
   \<and> (is_speaking s \<and> silence_duration s + chunk_duration < pause_threshold st \<longrightarrow>
        on_silence st chunk s =
          ([], s\<lparr>silence_buffer := silence_buffer s @ chunk,
                  silence_duration := silence_duration s + chunk_duration\<rparr>, False))
   \<and> continuous_loop run False default_settings
         (replicate 20 [voiced_chunk] @ replicate 16 [silent_chunk]) v
       = \<lparr>effects = [Dispatch PauseTimeout
                       (concat (replicate 20 voiced_chunk) @ concat (replicate 15 silent_chunk))
                       (3/2)],
          final_state = \<lparr>silence_buffer = [], silence_duration = 0, is_speaking = False,
                         loop_count = 36, idle_duration = 1/10\<rparr>,
          final_vad = v, raised = None\<rparr>
   \<and> total_duration (concat (replicate 20 voiced_chunk) @ concat (replicate 15 silent_chunk))
       = 7/2
   \<and> total_duration (concat (replicate 20 voiced_chunk) @ concat (replicate 15 silent_chunk))
       - 3/2 = 2
   \<and> \<bar>total_duration (concat (replicate 20 voiced_chunk) @ concat (replicate 15 silent_chunk))
        - 18/5\<bar> \<le> chunk_duration
   \<and> (0 < n \<longrightarrow>
        continuous_loop run False default_settings
            (replicate 20 [voiced_chunk] @ replicate 16 [replicate n 0]) v
          = \<lparr>effects = [Dispatch PauseTimeout
                          (concat (replicate 20 voiced_chunk)
                             @ concat (replicate 15 (replicate n 0)))
                          (3/2)],
             final_state = \<lparr>silence_buffer = [], silence_duration = 0, is_speaking = False,
                            loop_count = 36, idle_duration = 1/10\<rparr>,
             final_vad = v, raised = None\<rparr>
        \<and> total_duration (concat (replicate 20 voiced_chunk)
                             @ concat (replicate 15 (replicate n 0)))
            = 2 + 15 * real n / 16000)
   \<and> (1600 \<le> n \<and> n \<le> 1706 \<longrightarrow>
        \<bar>total_duration (concat (replicate 20 voiced_chunk)
                            @ concat (replicate 15 (replicate n 0))) - 18/5\<bar>
          \<le> chunk_duration
        \<and> \<bar>total_duration (concat (replicate 20 voiced_chunk)
                            @ concat (replicate 15 (replicate n 0))) - 3/2 - 2\<bar>
          \<le> chunk_duration)
   \<and> (is_speaking s \<and> silence_buffer s @ chunk \<noteq> []
        \<and> pause_threshold st \<le> rnd (silence_duration s + rnd chunk_duration) \<longrightarrow>
        on_silence_fp rnd st chunk s =
          ((if rnd (rnd (total_duration (silence_buffer s @ chunk))
                      - rnd (silence_duration s + rnd chunk_duration)) < 1/2
            then []
            else [Dispatch PauseTimeout (silence_buffer s @ chunk)
                    (rnd (silence_duration s + rnd chunk_duration))]),
           s\<lparr>silence_buffer := [], silence_duration := 0, is_speaking := False,
              idle_duration := 0\<rparr>,
           False))"
proof -
  have dispatch: "on_silence st chunk s =
        ((if total_duration (silence_buffer s @ chunk) - (silence_duration s + chunk_duration)
               < 1/2
          then []
          else [Dispatch PauseTimeout (silence_buffer s @ chunk)
                  (silence_duration s + chunk_duration)]),
         s\<lparr>silence_buffer := [], silence_duration := 0, is_speaking := False,
            idle_duration := 0\<rparr>,
         False)"
    if "is_speaking s" "0 \<le> silence_duration s"
      "pause_threshold st \<le> silence_duration s + chunk_duration"
  proof (cases "total_duration (silence_buffer s @ chunk)
                  - (silence_duration s + chunk_duration) < 1/2")
    case True
    then show ?thesis
      using that by (simp add: on_silence_exact Let_def total_duration_def)
  next
    case False
    then have "0 < total_duration (silence_buffer s @ chunk)"
      using that(2) by (simp add: chunk_duration_def)
    then have "0 < length (silence_buffer s @ chunk)"
      by (cases "silence_buffer s @ chunk") (simp_all add: total_duration_def)
    then show ?thesis
      using that False by (simp add: on_silence_exact Let_def total_duration_def)
  qed
  have continue: "on_silence st chunk s =
          ([], s\<lparr>silence_buffer := silence_buffer s @ chunk,
                  silence_duration := silence_duration s + chunk_duration\<rparr>, False)"
    if "is_speaking s" "silence_duration s + chunk_duration < pause_threshold st"
    using that by (simp add: on_silence_exact Let_def)
  have about: "\<bar>2 + 15 * real n / 16000 - 18/5\<bar> \<le> 1/10
               \<and> \<bar>2 + 15 * real n / 16000 - 3/2 - 2\<bar> \<le> 1/10"
    if "1600 \<le> n" "n \<le> 1706"
  proof -
    have "1600 \<le> real n" "real n \<le> 1706"
      using that by simp_all
    then show ?thesis
      by (simp add: abs_le_iff field_simps)
  qed
  show ?thesis
    using dispatch continue about pause_rule_fp [of s chunk st rnd]
    by (simp add: pause_scenario_loop scenario_durations pause_scenario_chunk_loop
        pause_scenario_chunk_duration chunk_duration_def)
qed

theorem pause_segmentation_witness:
  "on_silence default_settings silent_chunk
      \<lparr>silence_buffer = replicate 48000 (1/2), silence_duration = 7/5, is_speaking = True,
       loop_count = 44, idle_duration = 0\<rparr>
     = ([Dispatch PauseTimeout (replicate 48000 (1/2) @ silent_chunk) (3/2)],
        \<lparr>silence_buffer = [], silence_duration = 0, is_speaking = False,
         loop_count = 44, idle_duration = 0\<rparr>, False)
   \<and> on_silence default_settings silent_chunk
      \<lparr>silence_buffer = replicate 48000 (1/2), silence_duration = 1/2, is_speaking = True,
       loop_count = 35, idle_duration = 0\<rparr>
     = ([],
        \<lparr>silence_buffer = replicate 48000 (1/2) @ silent_chunk, silence_duration = 3/5,
         is_speaking = True, loop_count = 35, idle_duration = 0\<rparr>, False)
   \<and> effects (continuous_loop null_session False default_settings
                (replicate 20 [voiced_chunk] @ replicate 16 [replicate 1700 0]) fresh_vad)
     = [Dispatch PauseTimeout
          (concat (replicate 20 voiced_chunk) @ concat (replicate 15 (replicate 1700 0)))
          (3/2)]
   \<and> total_duration (concat (replicate 20 voiced_chunk)
                        @ concat (replicate 15 (replicate 1700 0))) = 115/32
   \<and> \<bar>(115/32 :: real) - 18/5\<bar> \<le> 1/10
   \<and> on_silence_fp round_double default_settings silent_chunk
      \<lparr>silence_buffer = replicate 48000 (1/2),
       silence_duration = 6305039478318695 / 4503599627370496, is_speaking = True,
       loop_count = 34, idle_duration = 0\<rparr>
     = ([Dispatch PauseTimeout (replicate 48000 (1/2) @ silent_chunk)
           (6755399441055745 / 4503599627370496)],
        \<lparr>silence_buffer = [], silence_duration = 0, is_speaking = False,
         loop_count = 34, idle_duration = 0\<rparr>, False)"
proof -
  note c = pause_segmentation [where s = "\<lparr>silence_buffer = replicate 48000 (1/2),
       silence_duration = 6305039478318695 / 4503599627370496, is_speaking = True,
       loop_count = 34, idle_duration = 0\<rparr>" and chunk = silent_chunk
       and st = default_settings and rnd = round_double and n = 1700
       and run = null_session and v = fresh_vad]
  have fifth: "on_silence_fp round_double default_settings silent_chunk
      \<lparr>silence_buffer = replicate 48000 (1/2),
       silence_duration = 6305039478318695 / 4503599627370496, is_speaking = True,
       loop_count = 34, idle_duration = 0\<rparr>
     = ([Dispatch PauseTimeout (replicate 48000 (1/2) @ silent_chunk)
           (6755399441055745 / 4503599627370496)],
        \<lparr>silence_buffer = [], silence_duration = 0, is_speaking = False,
         loop_count = 34, idle_duration = 0\<rparr>, False)"
    using c [THEN conjunct2, THEN conjunct2, THEN conjunct2, THEN conjunct2, THEN conjunct2,
             THEN conjunct2, THEN conjunct2, THEN conjunct2]
    by (simp add: default_settings_def round_double_chunk double_steps pause_rule_roundings
        total_duration_def silent_chunk_facts app_sample_rate_def)
  note a = pause_segmentation [where s =
          "\<lparr>silence_buffer = replicate 48000 (1/2), silence_duration = 7/5, is_speaking = True,
            loop_count = 44, idle_duration = 0\<rparr>" and st = default_settings
          and chunk = silent_chunk and n = 1700 and run = null_session and v = fresh_vad]
  note b = pause_segmentation [where s =
          "\<lparr>silence_buffer = replicate 48000 (1/2), silence_duration = 1/2, is_speaking = True,
            loop_count = 35, idle_duration = 0\<rparr>" and st = default_settings
          and chunk = silent_chunk and n = 1700 and run = null_session and v = fresh_vad]
  have first: "on_silence default_settings silent_chunk
      \<lparr>silence_buffer = replicate 48000 (1/2), silence_duration = 7/5, is_speaking = True,
       loop_count = 44, idle_duration = 0\<rparr>
     = ([Dispatch PauseTimeout (replicate 48000 (1/2) @ silent_chunk) (3/2)],
        \<lparr>silence_buffer = [], silence_duration = 0, is_speaking = False,
         loop_count = 44, idle_duration = 0\<rparr>, False)"
    using a [THEN conjunct1]
    by (simp add: default_settings_def chunk_duration_def total_duration_def
        silent_chunk_facts app_sample_rate_def)
  have second: "on_silence default_settings silent_chunk
      \<lparr>silence_buffer = replicate 48000 (1/2), silence_duration = 1/2, is_speaking = True,
       loop_count = 35, idle_duration = 0\<rparr>
     = ([],
        \<lparr>silence_buffer = replicate 48000 (1/2) @ silent_chunk, silence_duration = 3/5,
         is_speaking = True, loop_count = 35, idle_duration = 0\<rparr>, False)"
    using b [THEN conjunct2, THEN conjunct1]
    by (simp add: default_settings_def chunk_duration_def)
  have third: "effects (continuous_loop null_session False default_settings
                (replicate 20 [voiced_chunk] @ replicate 16 [replicate 1700 0]) fresh_vad)
     = [Dispatch PauseTimeout
          (concat (replicate 20 voiced_chunk) @ concat (replicate 15 (replicate 1700 0)))
          (3/2)]
   \<and> total_duration (concat (replicate 20 voiced_chunk)
                        @ concat (replicate 15 (replicate 1700 0))) = 115/32"
    using a [THEN conjunct2, THEN conjunct2, THEN conjunct2, THEN conjunct2, THEN conjunct2,
             THEN conjunct2, THEN conjunct1]
    by simp
  have fourth: "\<bar>(115/32 :: real) - 18/5\<bar> \<le> 1/10"
    using a [THEN conjunct2, THEN conjunct2, THEN conjunct2, THEN conjunct2, THEN conjunct2,
             THEN conjunct2, THEN conjunct2, THEN conjunct1] third
    by (simp add: chunk_duration_def)
  show ?thesis
    using first second third fourth fifth by simp
qed




text \<open>
  C3 (force-flush). While speaking, a voiced chunk that brings the buffer to 30 s makes
  the loop dispatch the buffer at once and reset the buffer and the silence counter,
  staying in the speaking state; below 30 s the chunk is only appended. For 31 s of
  continuous voice in chunks of 100 ms the loop itself dispatches exactly one segment,
  of exactly 30 s, and ends speaking with the remaining 1 s in the buffer (which the
  flush at the stop then dispatches).
\<close>

theorem force_flush:
  "(is_speaking s \<and> max_buffer_duration \<le> total_duration (silence_buffer s @ chunk) \<longrightarrow>
      on_voice chunk s =
        ([Dispatch ForceFlush (silence_buffer s @ chunk) (silence_duration s)],
         s\<lparr>silence_buffer := [], silence_duration := 0, idle_duration := 0\<rparr>)
      \<and> is_speaking (snd (on_voice chunk s)))
   \<and> (is_speaking s \<and> total_duration (silence_buffer s @ chunk) < max_buffer_duration \<longrightarrow>
        on_voice chunk s =
          ([], s\<lparr>silence_buffer := silence_buffer s @ chunk, idle_duration := 0\<rparr>))
   \<and> while_loop run False default_settings (replicate 310 [voiced_chunk]) v initial_loop_state
       = \<lparr>effects = [Dispatch ForceFlush (concat (replicate 300 voiced_chunk)) 0],
          final_state = \<lparr>silence_buffer = concat (replicate 10 voiced_chunk),
                         silence_duration = 0, is_speaking = True, loop_count = 310,
                         idle_duration = 0\<rparr>,
          final_vad = v, raised = None\<rparr>
   \<and> total_duration (concat (replicate 300 voiced_chunk)) = 30
   \<and> total_duration (concat (replicate 10 voiced_chunk)) = 1
   \<and> effects (continuous_loop run False default_settings (replicate 310 [voiced_chunk]) v)
       = [Dispatch ForceFlush (concat (replicate 300 voiced_chunk)) 0,
          Dispatch StopFlush (concat (replicate 10 voiced_chunk)) 0]"
  by (simp add: on_voice_exact Let_def total_duration_def force_flush_scenario
      force_flush_scenario_loop length_concat_replicate voiced_chunk_facts
      app_sample_rate_def)

theorem force_flush_witness:
  "on_voice voiced_chunk
      \<lparr>silence_buffer = replicate 479000 (1/2), silence_duration = 1/5, is_speaking = True,
       loop_count = 300, idle_duration = 0\<rparr>
     = ([Dispatch ForceFlush (replicate 479000 (1/2) @ voiced_chunk) (1/5)],
        \<lparr>silence_buffer = [], silence_duration = 0, is_speaking = True,
         loop_count = 300, idle_duration = 0\<rparr>)
   \<and> on_voice voiced_chunk
      \<lparr>silence_buffer = replicate 16000 (1/2), silence_duration = 1/5, is_speaking = True,
       loop_count = 11, idle_duration = 0\<rparr>
     = ([],
        \<lparr>silence_buffer = replicate 16000 (1/2) @ voiced_chunk, silence_duration = 1/5,
         is_speaking = True, loop_count = 11, idle_duration = 0\<rparr>)"
  using force_flush [of
          "\<lparr>silence_buffer = replicate 479000 (1/2), silence_duration = 1/5, is_speaking = True,
            loop_count = 300, idle_duration = 0\<rparr>" voiced_chunk]
        force_flush [of
          "\<lparr>silence_buffer = replicate 16000 (1/2), silence_duration = 1/5, is_speaking = True,
            loop_count = 11, idle_duration = 0\<rparr>" voiced_chunk]
  by (simp add: max_buffer_duration_def total_duration_def voiced_chunk_facts
      app_sample_rate_def)

text \<open>
  C4 (idle timeout). For a positive idle timeout \<open>T\<close> and a stream of silent chunks from
  the start, the idle counter advances at every chunk by the addition the loop performs
  (the rounded sum of the counter and the literal 0.1); at the first chunk \<open>k\<close> after
  which the accumulated counter has reached \<open>T\<close> the loop emits one stop signal and
  ends, having run \<open>k\<close> iterations, and emits nothing else; a stream during which the
  counter stays below \<open>T\<close> emits nothing. A voiced chunk resets the idle counter to zero.
  With exact addition the counter after \<open>k\<close> chunks is \<open>k\<close> times the chunk duration.
\<close>

theorem idle_timeout_stop:
  assumes silent: "\<forall>b\<in>set ticks. b \<noteq> [] \<and>
             (\<forall>v. fst (check_voice_activity run va st (concat b) v) = Inr False)"
    and positive: "0 < idle_timeout st"
  shows "(1 \<le> k \<and> k \<le> length ticks
            \<and> (\<forall>j. 1 \<le> j \<and> j < k \<longrightarrow> idle_counter rnd 0 j < idle_timeout st)
            \<and> idle_timeout st \<le> idle_counter rnd 0 k \<longrightarrow>
            effects (continuous_loop_fp rnd run va st ticks v) = [StopSignal]
            \<and> raised (continuous_loop_fp rnd run va st ticks v) = None
            \<and> loop_count (final_state (continuous_loop_fp rnd run va st ticks v)) = k
            \<and> idle_duration (final_state (continuous_loop_fp rnd run va st ticks v))
                = idle_counter rnd 0 k)
       \<and> ((\<forall>j. 1 \<le> j \<and> j \<le> length ticks \<longrightarrow> idle_counter rnd 0 j < idle_timeout st) \<longrightarrow>
            effects (continuous_loop_fp rnd run va st ticks v) = []
            \<and> idle_duration (final_state (continuous_loop_fp rnd run va st ticks v))
                = idle_counter rnd 0 (length ticks))
       \<and> (\<not> is_speaking s \<longrightarrow>
            idle_duration (fst (snd (on_silence_fp rnd st c s)))
              = rnd (idle_duration s + rnd chunk_duration))
       \<and> idle_duration (snd (on_voice_fp rnd c s)) = 0
       \<and> idle_counter (\<lambda>x. x) 0 k = real k * chunk_duration"
proof -
  let ?v = "if va then reset_states v else v"
  let ?r = "while_loop_fp rnd run va st ticks ?v initial_loop_state"
  have idle: "\<not> is_speaking initial_loop_state" "idle_duration initial_loop_state = 0"
    "loop_count initial_loop_state = 0"
    by (simp_all add: initial_loop_state_def)
  have stop: "effects (continuous_loop_fp rnd run va st ticks v) = [StopSignal]
            \<and> raised (continuous_loop_fp rnd run va st ticks v) = None
            \<and> loop_count (final_state (continuous_loop_fp rnd run va st ticks v)) = k
            \<and> idle_duration (final_state (continuous_loop_fp rnd run va st ticks v))
                = idle_counter rnd 0 k"
    if k: "1 \<le> k" "k \<le> length ticks"
      "\<forall>j. 1 \<le> j \<and> j < k \<longrightarrow> idle_counter rnd 0 j < idle_timeout st"
      "idle_timeout st \<le> idle_counter rnd 0 k"
  proof -
    obtain j where j: "k = Suc j"
      using k(1) by (cases k) simp_all
    have "effects ?r = [StopSignal] \<and> raised ?r = None
       \<and> loop_count (final_state ?r) = loop_count initial_loop_state + Suc j
       \<and> idle_duration (final_state ?r)
           = idle_counter rnd (idle_duration initial_loop_state) (Suc j)
       \<and> \<not> is_speaking (final_state ?r)"
    proof (rule idle_stop_fp [OF silent idle(1) positive])
      show "Suc j \<le> length ticks" using k(2) j by simp
      show "\<forall>i. 1 \<le> i \<and> i \<le> j \<longrightarrow>
              idle_counter rnd (idle_duration initial_loop_state) i < idle_timeout st"
        using k(3) j by (simp add: idle)
      show "idle_timeout st \<le> idle_counter rnd (idle_duration initial_loop_state) (Suc j)"
        using k(4) j by (simp add: idle)
    qed
    then show ?thesis
      using j by (simp add: continuous_loop_fp_def Let_def flush_remaining_fp_def idle)
  qed
  have continue: "effects (continuous_loop_fp rnd run va st ticks v) = []
            \<and> idle_duration (final_state (continuous_loop_fp rnd run va st ticks v))
                = idle_counter rnd 0 (length ticks)"
    if "\<forall>j. 1 \<le> j \<and> j \<le> length ticks \<longrightarrow> idle_counter rnd 0 j < idle_timeout st"
  proof -
    have "\<forall>i. 1 \<le> i \<and> i \<le> length ticks \<longrightarrow>
            idle_counter rnd (idle_duration initial_loop_state) i < idle_timeout st"
      using that by (simp add: idle)
    from idle_continue_fp [OF silent idle(1) this, of ?v] show ?thesis
      by (simp add: continuous_loop_fp_def Let_def flush_remaining_fp_def idle)
  qed
  have inc: "idle_duration (fst (snd (on_silence_fp rnd st c s)))
               = rnd (idle_duration s + rnd chunk_duration)"
    if "\<not> is_speaking s"
    using that by (simp add: on_silence_fp_def Let_def)
  have reset: "idle_duration (snd (on_voice_fp rnd c s)) = 0"
    by (simp add: on_voice_fp_def Let_def)
  have exact: "idle_counter (\<lambda>x. x) d k = d + real k * chunk_duration" for d
    by (induction k arbitrary: d) (simp_all add: algebra_simps)
  show ?thesis
    using stop continue inc reset exact [of 0] by simp
qed

theorem idle_timeout_stop_witness:
  "effects (continuous_loop_fp round_double null_session False default_settings
              (replicate 120 [silent_chunk]) fresh_vad) = [StopSignal]
   \<and> loop_count (final_state
         (continuous_loop_fp round_double null_session False default_settings
              (replicate 120 [silent_chunk]) fresh_vad)) = 101
   \<and> idle_duration (final_state
         (continuous_loop_fp round_double null_session False default_settings
              (replicate 120 [silent_chunk]) fresh_vad)) = 710724316194405 / 70368744177664
   \<and> effects (continuous_loop_fp round_double null_session False default_settings
              (replicate 100 [silent_chunk]) fresh_vad) = []
   \<and> idle_duration
         (fst (snd (on_silence_fp round_double default_settings silent_chunk
                      initial_loop_state)))
       = 3602879701896397 / 36028797018963968"
proof -
  let ?st = default_settings
  have chk: "check_voice_activity null_session False ?st silent_chunk v = (Inr False, v)" for v
    by (simp add: amplitude_check [OF silent_chunk_facts(1)] default_settings_def)
  have silent: "\<forall>b\<in>set (replicate n [silent_chunk]). b \<noteq> [] \<and>
             (\<forall>v. fst (check_voice_activity null_session False ?st (concat b) v) = Inr False)"
    for n
    by (simp add: chk)
  have positive: "0 < idle_timeout ?st"
    by (simp add: default_settings_def)
  have T: "idle_timeout ?st = 10"
    by (simp add: default_settings_def)
  note reach = first_reach_Some [OF first_reach_default(1)]
  have before: "\<forall>j. 1 \<le> j \<and> j < 101 \<longrightarrow> idle_counter round_double 0 j < idle_timeout ?st"
    using reach by (simp add: T)
  have at: "idle_timeout ?st \<le> idle_counter round_double 0 101"
    "idle_counter round_double 0 101 = 710724316194405 / 70368744177664"
    using reach by (simp_all add: T)
  have never: "\<forall>j. 1 \<le> j \<and> j \<le> length (replicate 100 [silent_chunk]) \<longrightarrow>
                 idle_counter round_double 0 j < idle_timeout ?st"
    using first_reach_None [OF first_reach_default(2)] by (simp add: T)
  have a: "effects (continuous_loop_fp round_double null_session False ?st
                      (replicate 120 [silent_chunk]) fresh_vad) = [StopSignal]
           \<and> loop_count (final_state
                 (continuous_loop_fp round_double null_session False ?st
                    (replicate 120 [silent_chunk]) fresh_vad)) = 101
           \<and> idle_duration (final_state
                 (continuous_loop_fp round_double null_session False ?st
                    (replicate 120 [silent_chunk]) fresh_vad)) = 710724316194405 / 70368744177664"
    using idle_timeout_stop [OF silent [of 120] positive, where k = 101 and v = fresh_vad
            and rnd = round_double and s = initial_loop_state and c = silent_chunk]
      before at
    by simp
  have b: "effects (continuous_loop_fp round_double null_session False ?st
                      (replicate 100 [silent_chunk]) fresh_vad) = []
           \<and> idle_duration (fst (snd (on_silence_fp round_double ?st silent_chunk
                                        initial_loop_state)))
               = 3602879701896397 / 36028797018963968"
    using idle_timeout_stop [OF silent [of 100] positive, where k = 101 and v = fresh_vad
            and rnd = round_double and s = initial_loop_state and c = silent_chunk]
      never
    by (simp add: initial_loop_state_def round_double_chunk double_steps)
  show ?thesis
    using a b by simp
qed

section \<open>Properties of the voice activity check\<close>

text \<open>
  C10 (frames seen by the voice activity check), as the code has it. With the Silero
  backend the check gives the same answer and leaves the same VAD object for a chunk and
  for its longest prefix made of full 512-sample frames; it processes the frames one
  after the other from the start. A chunk shorter than 512 samples is not evaluated at
  all: the VAD object is unchanged and the answer is whether 0 reaches the VAD
  threshold, that is false for every positive threshold.
\<close>

theorem voice_activity_full_frames:
  "check_voice_activity run True st chunk v
     = check_voice_activity run True st (take (512 * (length chunk div 512)) chunk) v
   \<and> (length frame = 512 \<longrightarrow>
        vad_frames run (frame @ rest) 0 m v
          = vad_frames run rest 0
              (max m (fst (run (vad_context v @ frame) (vad_state v) 16000)))
              (snd (process run frame v)))
   \<and> (length chunk < 512 \<longrightarrow>
        check_voice_activity run True st chunk v = (Inr (vad_threshold st \<le> 0), v))
   \<and> (length chunk < 512 \<and> 0 < vad_threshold st \<longrightarrow>
        check_voice_activity run True st chunk v = (Inr False, v))"
proof -
  have full: "vad_frames run chunk 0 0 v
                = vad_frames run (take (512 * (length chunk div 512)) chunk) 0 0 v"
    by (rule vad_frames_full) simp
  have short: "check_voice_activity run True st chunk v = (Inr (vad_threshold st \<le> 0), v)"
    if "length chunk < 512"
    using that by (simp add: check_voice_activity_def vad_frames_short)
  show ?thesis
    using short by (auto simp add: check_voice_activity_def full vad_frames_unroll)
qed

theorem voice_activity_full_frames_witness:
  "check_voice_activity null_session True default_settings (replicate 511 1) fresh_vad
     = (Inr False, fresh_vad)
   \<and> vad_frames null_session (replicate 512 1 @ [1, 1, 1]) 0 0 fresh_vad
     = (Inr 0, fresh_vad\<lparr>vad_context := replicate 64 1\<rparr>)"
proof -
  note t = voice_activity_full_frames [where run = null_session and st = default_settings
             and chunk = "replicate 511 1" and v = fresh_vad and frame = "replicate 512 1"
             and rest = "[1, 1, 1]" and m = 0]
  have a: "check_voice_activity null_session True default_settings (replicate 511 1) fresh_vad
             = (Inr False, fresh_vad)"
    using t [THEN conjunct2, THEN conjunct2, THEN conjunct2]
    by (simp add: default_settings_def)
  have b: "vad_frames null_session (replicate 512 1 @ [1, 1, 1]) 0 0 fresh_vad
             = (Inr 0, fresh_vad\<lparr>vad_context := replicate 64 1\<rparr>)"
    using t [THEN conjunct2, THEN conjunct1]
    by (simp add: vad_frames_short process_valid null_session_def fresh_vad_def)
  show ?thesis
    using a b by simp
qed

text \<open>
  C10 as stated says that a chunk shorter than 512 samples is always classified as
  silence. With the VAD threshold 0, the lowest position of the settings slider, it is
  classified as voice.
\<close>

theorem short_chunk_zero_threshold_counterexample:
  "length (replicate 511 (1::real)) < 512
   \<and> check_voice_activity null_session True (default_settings\<lparr>vad_threshold := 0\<rparr>)
         (replicate 511 1) fresh_vad
       = (Inr True, fresh_vad)"
  by (simp add: check_voice_activity_def vad_frames_short)

end
